theory Spec2Isabelle
  imports Main "HOL-Library.Sublist"
begin

section \<open>The outside world of \<open>sora_runner.py\<close>\<close>

text \<open>
  The script drives a browser through Selenium. Everything the script does not own (the
  file system, Chrome, the page, Selenium's own waiting loop) is a parameter of the model:
  a record of operations over an abstract state \<open>'b\<close>. An operation returns either the
  exception it raises or its value, the time it took in milliseconds, and the next state.
  Theorems hold for every such record; a scripted fake browser instantiates it.

  All exceptions of the model are subclasses of Python's \<open>Exception\<close>, so a clause
  \<open>except Exception\<close> catches each of them.
\<close>

datatype exn =
    TimeoutException string
  | ElementClickInterceptedException string
  | WebDriverException string
  | OSError string

fun str_exn :: "exn \<Rightarrow> string" where
  "str_exn (TimeoutException m) = m"
| "str_exn (ElementClickInterceptedException m) = m"
| "str_exn (WebDriverException m) = m"
| "str_exn (OSError m) = m"

text \<open>
  \<open>Path(s)\<close> and \<open>p / name\<close> of pathlib, kept symbolic: a path is the string it was made
  from or a name under another path. How pathlib normalises a string and renders a path
  as text is pathlib's business and is not modelled: the model never turns a path into text.
\<close>

datatype path = Path string | Div path string

fun parent :: "path \<Rightarrow> path option" where
  "parent (Div p n) = Some p"
| "parent (Path s) = None"

fun name_of :: "path \<Rightarrow> string option" where
  "name_of (Div p n) = Some n"
| "name_of (Path s) = None"

type_synonym elem = nat

datatype By = CSS_SELECTOR | XPATH | TAG_NAME

text \<open>The conditions handed to \<open>WebDriverWait(...).until\<close> in the script.\<close>

datatype cond =
    ReadyStateComplete
  | ElementToBeClickable By string
  | PresenceOfElementLocated By string
  | InvisibilityOfElementLocated By string

datatype action = MoveToElement elem | Click

text \<open>
  An argument added to the Chrome options: the f-string \<open>--user-data-dir={session_dir}\<close>,
  kept as the path it is built from, or a literal argument.
\<close>

datatype chrome_arg = UserDataDir path | Argument string

text \<open>One entry of the call log: every operation on the outside world, with its arguments.\<close>

datatype event =
    Mkdir path
  | Chrome "chrome_arg list"
  | SetScriptTimeout nat
  | Get string
  | Until nat cond
  | ExecuteScript string "elem list"
  | Perform "action list"
  | ElemClick elem
  | Clear elem
  | SendKeys elem string
  | FindElements By string
  | Title
  | Quit
  | Sleep nat

type_synonym ('r, 'b) oper = "'b \<Rightarrow> (exn + 'r) \<times> nat \<times> 'b"

record 'b iface =
  os_mkdir :: "path \<Rightarrow> (unit, 'b) oper"
  wd_Chrome :: "chrome_arg list \<Rightarrow> (unit, 'b) oper"
  wd_set_script_timeout :: "nat \<Rightarrow> (unit, 'b) oper"
  wd_get :: "string \<Rightarrow> (unit, 'b) oper"
  wd_until :: "nat \<Rightarrow> cond \<Rightarrow> (elem, 'b) oper"
  wd_execute_script :: "string \<Rightarrow> elem list \<Rightarrow> (unit, 'b) oper"
  wd_perform :: "action list \<Rightarrow> (unit, 'b) oper"
  wd_click :: "elem \<Rightarrow> (unit, 'b) oper"
  wd_clear :: "elem \<Rightarrow> (unit, 'b) oper"
  wd_send_keys :: "elem \<Rightarrow> string \<Rightarrow> (unit, 'b) oper"
  wd_find_elements :: "By \<Rightarrow> string \<Rightarrow> (elem list, 'b) oper"
  wd_title :: "(string option, 'b) oper"
  wd_quit :: "(unit, 'b) oper"

text \<open>
  The state of a run: the outside world, the clock (milliseconds), the log of calls made
  so far, and the lines written to stdout and stderr.
\<close>

record 'b world =
  env :: 'b
  clock :: nat
  trace :: "event list"
  stdout :: "string list"
  stderr :: "string list"

type_synonym ('r, 'b) prog = "'b world \<Rightarrow> (exn + 'r) \<times> 'b world"

section \<open>Control flow of Python as combinators\<close>

definition ret :: "'r \<Rightarrow> ('r, 'b) prog" where
  "ret x w = (Inr x, w)"

definition raise :: "exn \<Rightarrow> ('r, 'b) prog" where
  "raise e w = (Inl e, w)"

text \<open>Sequencing: an exception of the first statement skips the rest.\<close>

definition andthen :: "('a, 'b) prog \<Rightarrow> ('a \<Rightarrow> ('r, 'b) prog) \<Rightarrow> ('r, 'b) prog" where
  "andthen m f w = (case m w of (Inl e, w') \<Rightarrow> (Inl e, w') | (Inr x, w') \<Rightarrow> f x w')"

text \<open>\<open>try: m except Exception as e: h e\<close>; an exception of the handler propagates.\<close>

definition try_except :: "('r, 'b) prog \<Rightarrow> (exn \<Rightarrow> ('r, 'b) prog) \<Rightarrow> ('r, 'b) prog" where
  "try_except m h w = (case m w of (Inl e, w') \<Rightarrow> h e w' | (Inr x, w') \<Rightarrow> (Inr x, w'))"

text \<open>
  \<open>try: x = m except Exception as e: h e\<close> followed by the statements \<open>k x\<close>, which are
  outside the \<open>try\<close>.
\<close>

definition try_else ::
  "('a, 'b) prog \<Rightarrow> (exn \<Rightarrow> ('r, 'b) prog) \<Rightarrow> ('a \<Rightarrow> ('r, 'b) prog) \<Rightarrow> ('r, 'b) prog" where
  "try_else m h k w = (case m w of (Inl e, w') \<Rightarrow> h e w' | (Inr x, w') \<Rightarrow> k x w')"

text \<open>
  \<open>try: m finally: fin\<close>: the cleanup runs whatever \<open>m\<close> did; when the cleanup finishes
  normally the outcome of \<open>m\<close> (its return value or its exception) stands, when it raises
  its exception replaces that outcome.
\<close>

definition try_finally :: "('r, 'b) prog \<Rightarrow> (unit, 'b) prog \<Rightarrow> ('r, 'b) prog" where
  "try_finally m fin w =
     (case m w of (r, w') \<Rightarrow>
        (case fin w' of (Inl e, w'') \<Rightarrow> (Inl e, w'') | (Inr u, w'') \<Rightarrow> (r, w'')))"

text \<open>A call of an outside operation: logged, its duration added to the clock.\<close>

definition call :: "event \<Rightarrow> ('r, 'b) oper \<Rightarrow> ('r, 'b) prog" where
  "call ev f w =
     (case f (env w) of (r, dt, b) \<Rightarrow>
        (r, w\<lparr>env := b, clock := clock w + dt, trace := trace w @ [ev]\<rparr>))"

text \<open>\<open>time.sleep\<close>, in milliseconds, and \<open>time.time()\<close>.\<close>

definition sleep :: "nat \<Rightarrow> (unit, 'b) prog" where
  "sleep ms w = (Inr (), w\<lparr>clock := clock w + ms, trace := trace w @ [Sleep ms]\<rparr>)"

definition time_time :: "(nat, 'b) prog" where
  "time_time w = (Inr (clock w), w)"

definition print_out :: "string \<Rightarrow> (unit, 'b) prog" where
  "print_out s w = (Inr (), w\<lparr>stdout := stdout w @ [s]\<rparr>)"

definition print_err :: "string \<Rightarrow> (unit, 'b) prog" where
  "print_err s w = (Inr (), w\<lparr>stderr := stderr w @ [s]\<rparr>)"

section \<open>The functions of the script\<close>

definition ensure_dir :: "'b iface \<Rightarrow> path \<Rightarrow> (unit, 'b) prog" where
  "ensure_dir I p = call (Mkdir p) (os_mkdir I p)"

definition build_chrome_options :: "path \<Rightarrow> bool \<Rightarrow> chrome_arg list" where
  "build_chrome_options sd h =
     [UserDataDir sd,
      Argument ''--profile-directory=Default'',
      Argument ''--no-sandbox'',
      Argument ''--disable-dev-shm-usage'',
      Argument ''--disable-features=VizDisplayCompositor'',
      Argument ''--disable-web-security'']
     @ (if h then [Argument ''--headless=new''] else [])"

text \<open>
  \<open>session_dir or (Path(os.getcwd()) / ".chrome-session")\<close>: a \<open>Path\<close> is always truthy,
  so only \<open>None\<close> takes the default. The session handle is the world itself.
\<close>

definition create_driver :: "'b iface \<Rightarrow> string \<Rightarrow> bool \<Rightarrow> path option \<Rightarrow> (unit, 'b) prog" where
  "create_driver I cwd h sd =
     (let opts = build_chrome_options
                   (case sd of Some p \<Rightarrow> p | None \<Rightarrow> Div (Path cwd) ''.chrome-session'') h
      in andthen (call (Chrome opts) (wd_Chrome I opts)) (\<lambda>_.
         call (SetScriptTimeout 20) (wd_set_script_timeout I 20)))"

definition safe_get :: "'b iface \<Rightarrow> string \<Rightarrow> (bool, 'b) prog" where
  "safe_get I url =
     try_except
       (andthen (call (Get url) (wd_get I url)) (\<lambda>_.
        andthen (call (Until 10 ReadyStateComplete) (wd_until I 10 ReadyStateComplete)) (\<lambda>_.
        ret True)))
       (\<lambda>e. ret False)"

definition scroll_js :: string where
  "scroll_js = ''arguments[0].scrollIntoView({behavior:'smooth',block:'center'});''"

definition click_js :: string where
  "click_js = ''arguments[0].click();''"

definition dispatch_js :: string where
  "dispatch_js = ''var e=new MouseEvent('click',{bubbles:true,cancelable:true,view:window}); arguments[0].dispatchEvent(e);''"

text \<open>
  Each inner \<open>try\<close> that ends in \<open>return True\<close> is followed by the statements after it only
  when it raised; its clauses \<open>except ElementClickInterceptedException: pass\<close> and
  \<open>except Exception: pass\<close> do the same, so one handler stands for both.
\<close>

definition click_button_robustly :: "'b iface \<Rightarrow> elem \<Rightarrow> (bool, 'b) prog" where
  "click_button_robustly I button =
     try_except
       (andthen (call (ExecuteScript scroll_js [button]) (wd_execute_script I scroll_js [button])) (\<lambda>_.
        andthen (sleep 300) (\<lambda>_.
        andthen (try_except
                   (andthen (call (Perform [MoveToElement button]) (wd_perform I [MoveToElement button]))
                      (\<lambda>_. sleep 200))
                   (\<lambda>e. ret ())) (\<lambda>_.
        try_except
          (andthen (call (ElemClick button) (wd_click I button)) (\<lambda>_. ret True))
          (\<lambda>e.
        try_except
          (andthen (call (Perform [MoveToElement button, Click])
                      (wd_perform I [MoveToElement button, Click])) (\<lambda>_. ret True))
          (\<lambda>e.
        try_except
          (andthen (call (ExecuteScript click_js [button]) (wd_execute_script I click_js [button]))
             (\<lambda>_. ret True))
          (\<lambda>e.
        try_except
          (andthen (call (ExecuteScript dispatch_js [button])
                      (wd_execute_script I dispatch_js [button])) (\<lambda>_. ret True))
          (\<lambda>e. ret False))))))))
       (\<lambda>e. ret False)"

definition base :: string where
  "base = ''https://sora.chatgpt.com/''"

text \<open>
  The \<open>while time.time() < deadline\<close> loop of \<open>ensure_auth\<close>: sleep three seconds, read
  the title, stop when it contains \<open>ChatGPT\<close>. A title read that raises leaves the loop
  with the exception.
\<close>

function ensure_auth_loop :: "'b iface \<Rightarrow> nat \<Rightarrow> (unit, 'b) prog" where
  "ensure_auth_loop I deadline w =
     (if clock w < deadline then
        (case call Title (wd_title I) (snd (sleep 3000 w)) of
           (Inl e, w') \<Rightarrow> (Inl e, w')
         | (Inr t, w') \<Rightarrow>
             if sublist ''ChatGPT'' (case t of Some s \<Rightarrow> s | None \<Rightarrow> [])
             then (Inr (), w')
             else ensure_auth_loop I deadline w')
      else (Inr (), w))"
  by pat_completeness auto
termination
  apply (relation "measure (\<lambda>(I, deadline, w). deadline - clock w)")
   apply simp
  apply (auto simp: call_def sleep_def split: prod.splits)
  done

declare ensure_auth_loop.simps [simp del]

definition ensure_auth :: "'b iface \<Rightarrow> (unit, 'b) prog" where
  "ensure_auth I =
     andthen (safe_get I base) (\<lambda>_.
     andthen (sleep 2000) (\<lambda>_.
     andthen (call (FindElements TAG_NAME ''img'') (wd_find_elements I TAG_NAME ''img'')) (\<lambda>imgs.
     if imgs \<noteq> [] then ret ()
     else
       andthen (safe_get I ''https://chat.openai.com/'') (\<lambda>_.
       andthen time_time (\<lambda>t.
       andthen (ensure_auth_loop I (t + 120000)) (\<lambda>_.
       andthen (safe_get I base) (\<lambda>_.
       sleep 2000)))))))"

definition textarea_css :: string where
  "textarea_css = ''div.relative textarea[placeholder='Describe your video...']''"

definition type_prompt :: "'b iface \<Rightarrow> string \<Rightarrow> nat \<Rightarrow> (bool, 'b) prog" where
  "type_prompt I p timeout =
     try_except
       (andthen (call (Until timeout (ElementToBeClickable CSS_SELECTOR textarea_css))
                   (wd_until I timeout (ElementToBeClickable CSS_SELECTOR textarea_css))) (\<lambda>textarea.
        andthen (call (Clear textarea) (wd_clear I textarea)) (\<lambda>_.
        andthen (call (SendKeys textarea p) (wd_send_keys I textarea p)) (\<lambda>_.
        ret True))))
       (\<lambda>e. case e of
          TimeoutException m \<Rightarrow> andthen (print_err ''Textarea not found'') (\<lambda>_. ret False)
        | _ \<Rightarrow> andthen (print_err (''Failed to type prompt: '' @ str_exn e)) (\<lambda>_. ret False))"

definition create_xpath :: string where
  "create_xpath = ''//button[.//span[text()='Create video']]''"

definition click_create :: "'b iface \<Rightarrow> nat \<Rightarrow> (bool, 'b) prog" where
  "click_create I timeout =
     try_except
       (andthen (call (Until timeout (ElementToBeClickable XPATH create_xpath))
                   (wd_until I timeout (ElementToBeClickable XPATH create_xpath))) (\<lambda>button.
        click_button_robustly I button))
       (\<lambda>e. case e of
          TimeoutException m \<Rightarrow>
            andthen (print_err ''Create video button not found'') (\<lambda>_. ret False)
        | _ \<Rightarrow> andthen (print_err (''Failed to click create: '' @ str_exn e)) (\<lambda>_. ret False))"

text \<open>Decimal digits of a number, for the f-string of the selector.\<close>

fun str_nat :: "nat \<Rightarrow> string" where
  "str_nat n =
     (if n < 10 then [char_of (48 + n)]
      else str_nat (n div 10) @ [char_of (48 + n mod 10)])"

definition str_int :: "int \<Rightarrow> string" where
  "str_int i = (if i < 0 then ''-'' @ str_nat (nat (- i)) else str_nat (nat i))"

definition spinner_css :: "int \<Rightarrow> string" where
  "spinner_css index = ''[data-index='' @ [CHR 0x27] @ str_int index @ [CHR 0x27] @ ''] svg.h-8.w-8''"

definition wait_generation_complete :: "'b iface \<Rightarrow> int \<Rightarrow> nat \<Rightarrow> (bool, 'b) prog" where
  "wait_generation_complete I index timeout =
     (let selector = spinner_css index in
      try_except
        (andthen
           (try_except
              (andthen (call (Until 60 (PresenceOfElementLocated CSS_SELECTOR selector))
                          (wd_until I 60 (PresenceOfElementLocated CSS_SELECTOR selector)))
                 (\<lambda>_. ret ()))
              (\<lambda>e. case e of TimeoutException m \<Rightarrow> ret () | _ \<Rightarrow> raise e)) (\<lambda>_.
         andthen (call (Until timeout (InvisibilityOfElementLocated CSS_SELECTOR selector))
                    (wd_until I timeout (InvisibilityOfElementLocated CSS_SELECTOR selector))) (\<lambda>_.
         ret True)))
        (\<lambda>e. case e of
           TimeoutException m \<Rightarrow>
             andthen (print_err ''Generation did not finish within timeout'') (\<lambda>_. ret False)
         | _ \<Rightarrow> andthen (print_err (''Error waiting for generation: '' @ str_exn e)) (\<lambda>_. ret False)))"

text \<open>The parsed command line: \<open>--prompt\<close>, \<open>--headless\<close>, \<open>--session-dir\<close>.\<close>

record args =
  prompt :: string
  headless :: bool
  session_dir :: "string option"

definition lower_char :: "char \<Rightarrow> char" where
  "lower_char c =
     (let n = (of_char c :: nat) in if 65 \<le> n \<and> n \<le> 90 then char_of (n + 32) else c)"

definition lower :: "string \<Rightarrow> string" where
  "lower s = map lower_char s"

text \<open>
  \<open>Path(args.session_dir or (base_dir / ".chrome-session"))\<close>, where \<open>base_dir\<close> is
  \<open>Path(__file__).resolve().parent\<close>: a missing or empty option takes the default.
\<close>

definition main_session_dir :: "args \<Rightarrow> path \<Rightarrow> path" where
  "main_session_dir a base_dir =
     (case session_dir a of
        Some s \<Rightarrow> if s \<noteq> [] then Path s else Div base_dir ''.chrome-session''
      | None \<Rightarrow> Div base_dir ''.chrome-session'')"

text \<open>
  \<open>args.headless or os.getenv("SELENIUM_HEADLESS", "false").lower() == "true"\<close>; the
  argument \<open>hv\<close> is the value of the environment variable, if set.
\<close>

definition main_headless :: "args \<Rightarrow> string option \<Rightarrow> bool" where
  "main_headless a hv =
     (headless a \<or> lower (case hv of Some v \<Rightarrow> v | None \<Rightarrow> ''false'') = ''true'')"

text \<open>The body of the second \<open>try\<close> of \<open>main\<close>.\<close>

definition main_body :: "'b iface \<Rightarrow> args \<Rightarrow> (int, 'b) prog" where
  "main_body I a =
     andthen (ensure_auth I) (\<lambda>_.
     andthen (type_prompt I (prompt a) 20) (\<lambda>ok.
     if \<not> ok then ret 2
     else
       andthen (click_create I 20) (\<lambda>ok.
       if \<not> ok then ret 3
       else
         andthen (print_out ''WAITING'') (\<lambda>_.
         andthen (wait_generation_complete I 0 600) (\<lambda>ok.
         if \<not> ok then ret 4
         else andthen (print_out ''DONE'') (\<lambda>_. ret 0))))))"

definition driver_quit :: "'b iface \<Rightarrow> (unit, 'b) prog" where
  "driver_quit I = call Quit (wd_quit I)"

text \<open>
  \<open>main\<close>, from the parsed arguments on. The result is the value \<open>main\<close> returns, which
  \<open>sys.exit\<close> makes the exit code, or the exception that leaves \<open>main\<close> uncaught.
\<close>

definition main :: "'b iface \<Rightarrow> args \<Rightarrow> path \<Rightarrow> string \<Rightarrow> string option \<Rightarrow> (int, 'b) prog" where
  "main I a base_dir cwd hv =
     (let sd = main_session_dir a base_dir;
          h = main_headless a hv
      in andthen (ensure_dir I sd) (\<lambda>_.
         try_else (create_driver I cwd h (Some sd))
           (\<lambda>e. andthen (print_err (''Failed to start Chrome: '' @ str_exn e)) (\<lambda>_. ret 1))
           (\<lambda>_. try_finally (main_body I a)
                   (try_except (driver_quit I) (\<lambda>e. ret ())))))"

section \<open>A scripted fake browser\<close>

text \<open>
  A fake outside world for running the model on concrete inputs: its state counts the calls
  made so far, every call takes \<open>dt\<close> milliseconds, and the reply to a call is given by a
  behaviour function of the call count and the call.
\<close>

datatype reply = Ok | Elem elem | Elems "elem list" | TitleIs "string option" | Raises exn

fun as_unit :: "reply \<Rightarrow> exn + unit" where
  "as_unit Ok = Inr ()"
| "as_unit (Raises e) = Inl e"
| "as_unit _ = Inl (WebDriverException ''unexpected reply'')"

fun as_elem :: "reply \<Rightarrow> exn + elem" where
  "as_elem (Elem x) = Inr x"
| "as_elem (Raises e) = Inl e"
| "as_elem _ = Inl (WebDriverException ''unexpected reply'')"

fun as_elems :: "reply \<Rightarrow> exn + elem list" where
  "as_elems (Elems xs) = Inr xs"
| "as_elems (Raises e) = Inl e"
| "as_elems _ = Inl (WebDriverException ''unexpected reply'')"

fun as_title :: "reply \<Rightarrow> exn + string option" where
  "as_title (TitleIs t) = Inr t"
| "as_title (Raises e) = Inl e"
| "as_title _ = Inl (WebDriverException ''unexpected reply'')"

definition fake :: "nat \<Rightarrow> (nat \<Rightarrow> event \<Rightarrow> reply) \<Rightarrow> nat iface" where
  "fake dt beh =
     \<lparr>os_mkdir = (\<lambda>p n. (as_unit (beh n (Mkdir p)), dt, Suc n)),
      wd_Chrome = (\<lambda>opts n. (as_unit (beh n (Chrome opts)), dt, Suc n)),
      wd_set_script_timeout = (\<lambda>t n. (as_unit (beh n (SetScriptTimeout t)), dt, Suc n)),
      wd_get = (\<lambda>url n. (as_unit (beh n (Get url)), dt, Suc n)),
      wd_until = (\<lambda>t c n. (as_elem (beh n (Until t c)), dt, Suc n)),
      wd_execute_script = (\<lambda>js xs n. (as_unit (beh n (ExecuteScript js xs)), dt, Suc n)),
      wd_perform = (\<lambda>acts n. (as_unit (beh n (Perform acts)), dt, Suc n)),
      wd_click = (\<lambda>x n. (as_unit (beh n (ElemClick x)), dt, Suc n)),
      wd_clear = (\<lambda>x n. (as_unit (beh n (Clear x)), dt, Suc n)),
      wd_send_keys = (\<lambda>x s n. (as_unit (beh n (SendKeys x s)), dt, Suc n)),
      wd_find_elements = (\<lambda>b s n. (as_elems (beh n (FindElements b s)), dt, Suc n)),
      wd_title = (\<lambda>n. (as_title (beh n Title), dt, Suc n)),
      wd_quit = (\<lambda>n. (as_unit (beh n Quit), dt, Suc n))\<rparr>"

definition start :: "'b \<Rightarrow> 'b world" where
  "start b = \<lparr>env = b, clock = 0, trace = [], stdout = [], stderr = []\<rparr>"

definition happy :: "nat \<Rightarrow> event \<Rightarrow> reply" where
  "happy n ev =
     (case ev of
        FindElements b s \<Rightarrow> Elems [1]
      | Until t c \<Rightarrow> Elem 7
      | Title \<Rightarrow> TitleIs (Some ''ChatGPT'')
      | _ \<Rightarrow> Ok)"

definition args0 :: args where
  "args0 = \<lparr>prompt = ''a cat'', headless = False, session_dir = None\<rparr>"

text \<open>Behaviours of the fake browser used below.\<close>

definition native_blocked :: "nat \<Rightarrow> event \<Rightarrow> reply" where
  "native_blocked n ev =
     (case ev of
        ElemClick x \<Rightarrow> Raises (ElementClickInterceptedException ''intercepted'')
      | Perform acts \<Rightarrow>
          if Click \<in> set acts then Raises (WebDriverException ''move target out of bounds'')
          else Ok
      | _ \<Rightarrow> Ok)"

definition scroll_fails :: "nat \<Rightarrow> event \<Rightarrow> reply" where
  "scroll_fails n ev =
     (case ev of
        ElemClick x \<Rightarrow> Raises (ElementClickInterceptedException ''intercepted'')
      | ExecuteScript js xs \<Rightarrow>
          if js = scroll_js then Raises (WebDriverException ''javascript error'') else Ok
      | _ \<Rightarrow> Ok)"

definition login_needed :: "nat \<Rightarrow> event \<Rightarrow> reply" where
  "login_needed n ev =
     (case ev of
        FindElements b s \<Rightarrow> Elems []
      | Until t c \<Rightarrow> Elem 7
      | Title \<Rightarrow> if n < 10 then TitleIs (Some ''Log in'') else TitleIs (Some ''ChatGPT'')
      | _ \<Rightarrow> Ok)"

definition window_closed :: "nat \<Rightarrow> event \<Rightarrow> reply" where
  "window_closed n ev =
     (case ev of
        FindElements b s \<Rightarrow> Elems []
      | Until t c \<Rightarrow> Elem 7
      | Title \<Rightarrow> Raises (WebDriverException ''no such window'')
      | _ \<Rightarrow> Ok)"

definition gen_timeout :: "nat \<Rightarrow> event \<Rightarrow> reply" where
  "gen_timeout n ev =
     (case ev of
        FindElements b s \<Rightarrow> Elems [1]
      | Until t c \<Rightarrow>
          (case c of
             InvisibilityOfElementLocated b s \<Rightarrow> Raises (TimeoutException ''Message: '')
           | _ \<Rightarrow> Elem 7)
      | _ \<Rightarrow> Ok)"

definition no_textarea :: "nat \<Rightarrow> event \<Rightarrow> reply" where
  "no_textarea n ev =
     (case ev of
        FindElements b s \<Rightarrow> Elems [1]
      | Until t c \<Rightarrow>
          (case c of
             ElementToBeClickable b s \<Rightarrow>
               if b = CSS_SELECTOR then Raises (TimeoutException ''Message: '') else Elem 7
           | _ \<Rightarrow> Elem 7)
      | _ \<Rightarrow> Ok)"

definition no_button :: "nat \<Rightarrow> event \<Rightarrow> reply" where
  "no_button n ev =
     (case ev of
        FindElements b s \<Rightarrow> Elems [1]
      | Until t c \<Rightarrow>
          (case c of
             ElementToBeClickable b s \<Rightarrow>
               if b = XPATH then Raises (TimeoutException ''Message: '') else Elem 7
           | _ \<Rightarrow> Elem 7)
      | _ \<Rightarrow> Ok)"

definition typing_and_quit_fail :: "nat \<Rightarrow> event \<Rightarrow> reply" where
  "typing_and_quit_fail n ev =
     (case ev of
        FindElements b s \<Rightarrow> Elems [1]
      | Until t c \<Rightarrow> Elem 7
      | SendKeys x s \<Rightarrow> Raises (WebDriverException ''element not interactable'')
      | Quit \<Rightarrow> Raises (WebDriverException ''chrome not reachable'')
      | _ \<Rightarrow> Ok)"

definition auth_crash :: "nat \<Rightarrow> event \<Rightarrow> reply" where
  "auth_crash n ev =
     (case ev of
        FindElements b s \<Rightarrow> Raises (WebDriverException ''disconnected'')
      | Until t c \<Rightarrow> Elem 7
      | _ \<Rightarrow> Ok)"

definition nav_down :: "nat \<Rightarrow> event \<Rightarrow> reply" where
  "nav_down n ev =
     (case ev of
        Get url \<Rightarrow> Raises (WebDriverException ''net::ERR_NAME_NOT_RESOLVED'')
      | _ \<Rightarrow> Ok)"

definition script_engine_down :: "nat \<Rightarrow> event \<Rightarrow> reply" where
  "script_engine_down n ev =
     (case ev of
        ExecuteScript js xs \<Rightarrow> Raises (WebDriverException ''javascript error'')
      | _ \<Rightarrow> Ok)"

definition config_fails :: "nat \<Rightarrow> event \<Rightarrow> reply" where
  "config_fails n ev =
     (case ev of
        SetScriptTimeout t \<Rightarrow> Raises (WebDriverException ''chrome not reachable'')
      | _ \<Rightarrow> Ok)"

section \<open>The polling of \<open>ensure_auth\<close>\<close>

text \<open>
  Notions for stating what the polling loop does. One poll is a sleep of three seconds
  followed by a read of the title; \<open>polled I k w\<close> is the world after \<open>k\<close> polls from \<open>w\<close>;
  a title carries the login signal when it contains \<open>ChatGPT\<close>; \<open>no_signal r\<close> says that
  a read returned a title without the signal (a read that raised is not one).
\<close>

definition poll :: "'b iface \<Rightarrow> 'b world \<Rightarrow> (exn + string option) \<times> 'b world" where
  "poll I w = call Title (wd_title I) (snd (sleep 3000 w))"

fun polled :: "'b iface \<Rightarrow> nat \<Rightarrow> 'b world \<Rightarrow> 'b world" where
  "polled I 0 w = w"
| "polled I (Suc k) w = polled I k (snd (poll I w))"

definition has_signal :: "string option \<Rightarrow> bool" where
  "has_signal t = sublist ''ChatGPT'' (case t of Some s \<Rightarrow> s | None \<Rightarrow> [])"

definition no_signal :: "exn + string option \<Rightarrow> bool" where
  "no_signal r = (case r of Inl e \<Rightarrow> False | Inr t \<Rightarrow> \<not> has_signal t)"

section \<open>Frame properties\<close>

text \<open>
  \<open>keeps f m\<close>: running \<open>m\<close> leaves the observation \<open>f\<close> of the world unchanged.
  \<open>no_quit m\<close>: running \<open>m\<close> only appends to the call log, and never a \<open>Quit\<close>.
\<close>

definition keeps :: "('b world \<Rightarrow> 'x) \<Rightarrow> ('r, 'b) prog \<Rightarrow> bool" where
  "keeps f m = (\<forall>w. f (snd (m w)) = f w)"

definition no_quit :: "('r, 'b) prog \<Rightarrow> bool" where
  "no_quit m = (\<forall>w. \<exists>tr. trace (snd (m w)) = trace w @ tr \<and> Quit \<notin> set tr)"


section \<open>Lemmas about the combinators and the functions of the script\<close>

lemmas prog_defs = ret_def raise_def andthen_def try_except_def try_else_def try_finally_def
  call_def sleep_def time_time_def print_out_def print_err_def

lemmas script_defs = ensure_dir_def build_chrome_options_def create_driver_def safe_get_def
  click_button_robustly_def ensure_auth_def type_prompt_def click_create_def
  wait_generation_complete_def main_session_dir_def main_headless_def main_body_def
  driver_quit_def main_def lower_def lower_char_def Let_def

lemmas fake_defs = fake_def start_def args0_def


lemma keepsD: "keeps f m \<Longrightarrow> m w = (r, w') \<Longrightarrow> f w' = f w"
  by (auto simp: keeps_def dest: spec [of _ w])

lemma no_quitD: "no_quit m \<Longrightarrow> m w = (r, w') \<Longrightarrow> \<exists>tr. trace w' = trace w @ tr \<and> Quit \<notin> set tr"
  by (auto simp: no_quit_def dest: spec [of _ w])

lemma keeps_ret: "keeps f (ret x)"
  by (simp add: keeps_def ret_def)
lemma keeps_raise: "keeps f (raise e)"
  by (simp add: keeps_def raise_def)
lemma keeps_time_time: "keeps f time_time"
  by (simp add: keeps_def time_time_def)

lemma keeps_andthen: "keeps f m \<Longrightarrow> (\<And>x. keeps f (g x)) \<Longrightarrow> keeps f (andthen m g)"
  by (auto simp: keeps_def andthen_def split: prod.splits sum.splits) (metis snd_conv)+

lemma keeps_try_except: "keeps f m \<Longrightarrow> (\<And>e. keeps f (h e)) \<Longrightarrow> keeps f (try_except m h)"
  by (auto simp: keeps_def try_except_def split: prod.splits sum.splits) (metis snd_conv)+

lemma keeps_try_else:
  "keeps f m \<Longrightarrow> (\<And>e. keeps f (h e)) \<Longrightarrow> (\<And>x. keeps f (k x)) \<Longrightarrow> keeps f (try_else m h k)"
  by (auto simp: keeps_def try_else_def split: prod.splits sum.splits) (metis snd_conv)+

lemma keeps_try_finally: "keeps f m \<Longrightarrow> keeps f fin \<Longrightarrow> keeps f (try_finally m fin)"
  by (auto simp: keeps_def try_finally_def split: prod.splits sum.splits) (metis snd_conv)+

lemma keeps_stdout_call: "keeps stdout (call ev op)"
  by (simp add: keeps_def call_def split: prod.splits)
lemma keeps_stdout_sleep: "keeps stdout (sleep n)"
  by (simp add: keeps_def sleep_def)
lemma keeps_stdout_print_err: "keeps stdout (print_err s)"
  by (simp add: keeps_def print_err_def)

lemma no_quit_ret: "no_quit (ret x)"
  by (simp add: no_quit_def ret_def)
lemma no_quit_raise: "no_quit (raise e)"
  by (simp add: no_quit_def raise_def)
lemma no_quit_time_time: "no_quit time_time"
  by (simp add: no_quit_def time_time_def)
lemma no_quit_print_err: "no_quit (print_err s)"
  by (simp add: no_quit_def print_err_def)
lemma no_quit_print_out: "no_quit (print_out s)"
  by (simp add: no_quit_def print_out_def)
lemma no_quit_sleep: "no_quit (sleep n)"
  by (simp add: no_quit_def sleep_def)
lemma no_quit_call: "ev \<noteq> Quit \<Longrightarrow> no_quit (call ev op)"
  by (simp add: no_quit_def call_def split: prod.splits)

lemma andthen_try_else: "andthen m g = try_else m raise g"
  by (rule ext) (simp add: andthen_def try_else_def raise_def split: prod.splits sum.splits)

lemma try_except_try_else: "try_except m h = try_else m h ret"
  by (rule ext) (simp add: try_except_def try_else_def ret_def split: prod.splits sum.splits)

lemma no_quit_try_else:
  assumes "no_quit m" and "\<And>e. no_quit (h e)" and "\<And>x. no_quit (k x)"
  shows "no_quit (try_else m h k)"
  unfolding no_quit_def
proof
  fix w
  obtain r w1 where m: "m w = (r, w1)" by (cases "m w")
  from no_quitD [OF assms(1) m] obtain tr1 where
    t1: "trace w1 = trace w @ tr1" "Quit \<notin> set tr1" by blast
  show "\<exists>tr. trace (snd (try_else m h k w)) = trace w @ tr \<and> Quit \<notin> set tr"
  proof (cases r)
    case (Inl e)
    obtain r2 w2 where g: "h e w1 = (r2, w2)" by (cases "h e w1")
    from no_quitD [OF assms(2) g] obtain tr2 where
      "trace w2 = trace w1 @ tr2" "Quit \<notin> set tr2" by blast
    with Inl m g t1 show ?thesis by (auto simp: try_else_def)
  next
    case (Inr x)
    obtain r2 w2 where g: "k x w1 = (r2, w2)" by (cases "k x w1")
    from no_quitD [OF assms(3) g] obtain tr2 where
      "trace w2 = trace w1 @ tr2" "Quit \<notin> set tr2" by blast
    with Inr m g t1 show ?thesis by (auto simp: try_else_def)
  qed
qed

lemma no_quit_andthen: "no_quit m \<Longrightarrow> (\<And>x. no_quit (g x)) \<Longrightarrow> no_quit (andthen m g)"
  by (simp add: andthen_try_else no_quit_try_else no_quit_raise)

lemma no_quit_try_except: "no_quit m \<Longrightarrow> (\<And>e. no_quit (h e)) \<Longrightarrow> no_quit (try_except m h)"
  by (simp add: try_except_try_else no_quit_try_else no_quit_ret)

lemma keeps_if: "keeps f m \<Longrightarrow> keeps f n \<Longrightarrow> keeps f (if c then m else n)"
  by simp

lemma no_quit_if: "no_quit m \<Longrightarrow> no_quit n \<Longrightarrow> no_quit (if c then m else n)"
  by simp

lemmas keeps_stdout_intros =
  keeps_ret keeps_raise keeps_time_time keeps_andthen keeps_try_except keeps_try_else
  keeps_stdout_call keeps_stdout_sleep keeps_stdout_print_err

lemmas no_quit_intros =
  no_quit_ret no_quit_raise no_quit_time_time no_quit_andthen no_quit_try_except
  no_quit_try_else no_quit_call no_quit_sleep no_quit_print_err no_quit_print_out

lemma keeps_stdout_safe_get: "keeps stdout (safe_get I url)"
  unfolding safe_get_def by (intro keeps_stdout_intros)

lemma no_quit_safe_get: "no_quit (safe_get I url)"
  unfolding safe_get_def by (intro no_quit_intros) simp_all

lemma keeps_stdout_click_button_robustly: "keeps stdout (click_button_robustly I b)"
  unfolding click_button_robustly_def by (intro keeps_stdout_intros)

lemma no_quit_click_button_robustly: "no_quit (click_button_robustly I b)"
  unfolding click_button_robustly_def by (intro no_quit_intros) simp_all

lemma keeps_stdout_loop: "stdout (snd (ensure_auth_loop I d w)) = stdout w"
proof (induction I d w rule: ensure_auth_loop.induct)
  case (1 I d w)
  show ?case
  proof (cases "clock w < d")
    case False
    then show ?thesis by (simp add: ensure_auth_loop.simps [of I d w])
  next
    case True
    obtain r w' where c: "call Title (wd_title I) (snd (sleep 3000 w)) = (r, w')"
      by (cases "call Title (wd_title I) (snd (sleep 3000 w))")
    then have s: "stdout w' = stdout w"
      by (auto simp: call_def sleep_def split: prod.splits)
    show ?thesis
    proof (cases r)
      case (Inl e)
      with True c s show ?thesis by (simp add: ensure_auth_loop.simps [of I d w])
    next
      case (Inr t)
      with True c s "1.IH" [OF True c [symmetric] Inr] show ?thesis
        by (simp add: ensure_auth_loop.simps [of I d w])
    qed
  qed
qed


lemma loop_step_world:
  assumes "call Title (wd_title I) (snd (sleep 3000 w)) = (r, w')"
  shows "trace w' = trace w @ [Sleep 3000, Title]" and "clock w + 3000 \<le> clock w'"
    and "stdout w' = stdout w"
  using assms by (auto simp: call_def sleep_def split: prod.splits)

lemma loop_trace:
  "\<exists>k. trace (snd (ensure_auth_loop I d w)) = trace w @ concat (replicate k [Sleep 3000, Title])
      \<and> 3000 * k < d - clock w + 3000
      \<and> (\<forall>e. fst (ensure_auth_loop I d w) = Inl e \<longrightarrow> 0 < k)"
proof (induction I d w rule: ensure_auth_loop.induct)
  case (1 I d w)
  show ?case
  proof (cases "clock w < d")
    case False
    then have "ensure_auth_loop I d w = (Inr (), w)"
      by (simp add: ensure_auth_loop.simps [of I d w])
    then show ?thesis by (intro exI [of _ 0]) simp
  next
    case True
    obtain r w' where c: "call Title (wd_title I) (snd (sleep 3000 w)) = (r, w')"
      by (cases "call Title (wd_title I) (snd (sleep 3000 w))")
    note st = loop_step_world [OF c]
    show ?thesis
    proof (cases r)
      case (Inl e)
      with True c have "ensure_auth_loop I d w = (Inl e, w')"
        by (simp add: ensure_auth_loop.simps [of I d w])
      with st True show ?thesis by (intro exI [of _ 1]) simp
    next
      case (Inr t)
      show ?thesis
      proof (cases "sublist ''ChatGPT'' (case t of Some s \<Rightarrow> s | None \<Rightarrow> [])")
        case found: True
        with True c Inr have "ensure_auth_loop I d w = (Inr (), w')"
          by (simp add: ensure_auth_loop.simps [of I d w])
        with st True show ?thesis by (intro exI [of _ 1]) simp
      next
        case notfound: False
        with True c Inr have eq: "ensure_auth_loop I d w = ensure_auth_loop I d w'"
          by (simp add: ensure_auth_loop.simps [of I d w])
        from "1.IH" [OF True c [symmetric] Inr notfound] obtain k where
          k: "trace (snd (ensure_auth_loop I d w')) = trace w' @ concat (replicate k [Sleep 3000, Title])"
             "3000 * k < d - clock w' + 3000" by blast
        have "3000 * Suc k < d - clock w + 3000"
          using k(2) st(2) True by (cases "clock w' < d") auto
        with k(1) st(1) eq show ?thesis by (intro exI [of _ "Suc k"]) simp
      qed
    qed
  qed
qed

lemma no_quit_loop: "no_quit (ensure_auth_loop I d)"
  unfolding no_quit_def
proof
  fix w
  from loop_trace [of I d w] obtain k where
    "trace (snd (ensure_auth_loop I d w)) = trace w @ concat (replicate k [Sleep 3000, Title])"
    by blast
  moreover have "Quit \<notin> set (concat (replicate k [Sleep 3000, Title]))"
    by (induction k) auto
  ultimately show "\<exists>tr. trace (snd (ensure_auth_loop I d w)) = trace w @ tr \<and> Quit \<notin> set tr"
    by blast
qed

lemma keeps_stdout_ensure_auth_loop: "keeps stdout (ensure_auth_loop I d)"
  by (simp add: keeps_def keeps_stdout_loop)

lemma keeps_stdout_ensure_auth: "keeps stdout (ensure_auth I)"
  unfolding ensure_auth_def
  by (intro keeps_stdout_intros keeps_stdout_safe_get keeps_stdout_ensure_auth_loop keeps_if) 


lemma no_quit_ensure_auth: "no_quit (ensure_auth I)"
  unfolding ensure_auth_def
  by (intro no_quit_intros no_quit_safe_get no_quit_loop no_quit_if) simp_all

lemma keeps_stdout_type_prompt: "keeps stdout (type_prompt I p t)"
  unfolding type_prompt_def
  by (intro keeps_stdout_intros) (auto split: exn.splits intro!: keeps_stdout_intros)

lemma no_quit_type_prompt: "no_quit (type_prompt I p t)"
  unfolding type_prompt_def
  by (intro no_quit_intros) (auto split: exn.splits intro!: no_quit_intros)

lemma keeps_stdout_click_create: "keeps stdout (click_create I t)"
  unfolding click_create_def
  by (intro keeps_stdout_intros keeps_stdout_click_button_robustly)
     (auto split: exn.splits intro!: keeps_stdout_intros)

lemma no_quit_click_create: "no_quit (click_create I t)"
  unfolding click_create_def
  by (intro no_quit_intros no_quit_click_button_robustly)
     (auto split: exn.splits intro!: no_quit_intros)

lemma keeps_stdout_wait_generation_complete: "keeps stdout (wait_generation_complete I i t)"
  unfolding wait_generation_complete_def Let_def
  by (intro keeps_stdout_intros) (auto split: exn.splits intro!: keeps_stdout_intros)

lemma no_quit_wait_generation_complete: "no_quit (wait_generation_complete I i t)"
  unfolding wait_generation_complete_def Let_def
  by (intro no_quit_intros) (auto split: exn.splits intro!: no_quit_intros)

lemma keeps_stdout_create_driver: "keeps stdout (create_driver I cwd h sd)"
  unfolding create_driver_def Let_def by (intro keeps_stdout_intros)

lemma keeps_stdout_ensure_dir: "keeps stdout (ensure_dir I p)"
  unfolding ensure_dir_def by (intro keeps_stdout_intros)

lemma no_quit_main_body: "no_quit (main_body I a)"
  unfolding main_body_def
  by (intro no_quit_intros no_quit_if no_quit_ensure_auth no_quit_type_prompt
        no_quit_click_create no_quit_wait_generation_complete)

lemma main_launched:
  assumes "ensure_dir I (main_session_dir a base_dir) w0 = (Inr (), w1)"
    and "create_driver I cwd (main_headless a hv) (Some (main_session_dir a base_dir)) w1 = (Inr (), w2)"
  shows "main I a base_dir cwd hv w0 =
           try_finally (main_body I a) (try_except (driver_quit I) (\<lambda>e. ret ())) w2"
  using assms by (simp add: main_def Let_def andthen_def try_else_def)

lemma finally_quit:
  assumes "m w = (r, w')"
  shows "fst (try_finally m (try_except (driver_quit I) (\<lambda>e. ret ())) w) = r"
    and "stdout (snd (try_finally m (try_except (driver_quit I) (\<lambda>e. ret ())) w)) = stdout w'"
    and "trace (snd (try_finally m (try_except (driver_quit I) (\<lambda>e. ret ())) w)) = trace w' @ [Quit]"
  using assms
  by (auto simp: try_finally_def try_except_def driver_quit_def call_def ret_def
      split: prod.splits sum.splits)

lemma launch_stdout:
  assumes "ensure_dir I sd w0 = (Inr (), w1)"
    and "create_driver I cwd h (Some sd) w1 = (Inr (), w2)"
  shows "stdout w2 = stdout w0"
  using keepsD [OF keeps_stdout_ensure_dir assms(1)] keepsD [OF keeps_stdout_create_driver assms(2)]
  by simp

lemma trace_extends:
  assumes "no_quit m" and "m w = (r, w')"
  obtains tr where "trace w' = trace w @ tr" and "Quit \<notin> set tr"
  using no_quitD [OF assms] by blast

lemma create_driver_trace:
  "\<exists>tr. trace (snd (create_driver I cwd h (Some sd) w)) =
     trace w @ Chrome (build_chrome_options sd h) # tr \<and> Quit \<notin> set tr"
  by (auto simp: create_driver_def Let_def andthen_def call_def split: prod.splits sum.splits)

lemma safe_get_result:
  "\<exists>ok w'. safe_get I url w = (Inr ok, w') \<and>
     (trace w' = trace w @ [Get url] \<or> trace w' = trace w @ [Get url, Until 10 ReadyStateComplete])"
  by (auto simp: safe_get_def try_except_def andthen_def call_def ret_def
      split: prod.splits sum.splits)

lemma andthen_safe_get: "andthen (safe_get I url) (\<lambda>_. k) w = k (snd (safe_get I url w))"
  using safe_get_result [of I url w] by (auto simp: andthen_def)

lemma andthen_sleep: "andthen (sleep n) (\<lambda>_. k) w = k (snd (sleep n w))"
  by (simp add: andthen_def sleep_def)

lemma main_launch_failure:
  assumes "ensure_dir I (main_session_dir a base_dir) w0 = (Inr (), w1)"
    and "create_driver I cwd (main_headless a hv) (Some (main_session_dir a base_dir)) w1 = (Inl e, w2)"
  shows "fst (main I a base_dir cwd hv w0) = Inr 1"
    and "trace (snd (main I a base_dir cwd hv w0)) = trace w2"
  using assms by (simp_all add: main_def Let_def andthen_def try_else_def print_err_def ret_def)

text \<open>
  The three steps after authentication never raise: every failure becomes the boolean
  false. A wait that times out gives false with the step's message on stderr.
\<close>

lemma type_prompt_never_raises: "\<exists>ok w'. type_prompt I p t w = (Inr ok, w')"
  by (auto simp: type_prompt_def try_except_def andthen_def call_def ret_def print_err_def
      split: prod.splits sum.splits exn.splits)

lemma type_prompt_timeout:
  assumes "fst (wd_until I t (ElementToBeClickable CSS_SELECTOR textarea_css) (env w))
             = Inl (TimeoutException m)"
  shows "fst (type_prompt I p t w) = Inr False"
    and "stderr (snd (type_prompt I p t w)) = stderr w @ [''Textarea not found'']"
  using assms
  by (auto simp: type_prompt_def try_except_def andthen_def call_def ret_def print_err_def
      split: prod.splits sum.splits exn.splits)

lemma click_button_robustly_never_raises: "\<exists>ok w'. click_button_robustly I b w = (Inr ok, w')"
  by (auto simp: click_button_robustly_def try_except_def ret_def split: prod.splits sum.splits)

lemma click_create_never_raises: "\<exists>ok w'. click_create I t w = (Inr ok, w')"
  by (auto simp: click_create_def try_except_def andthen_def ret_def print_err_def
      split: prod.splits sum.splits exn.splits)

lemma click_create_timeout:
  assumes "fst (wd_until I t (ElementToBeClickable XPATH create_xpath) (env w))
             = Inl (TimeoutException m)"
  shows "fst (click_create I t w) = Inr False"
    and "stderr (snd (click_create I t w)) = stderr w @ [''Create video button not found'']"
  using assms
  by (auto simp: click_create_def try_except_def andthen_def call_def ret_def print_err_def
      split: prod.splits sum.splits exn.splits)

lemma wait_generation_complete_never_raises:
  "\<exists>ok w'. wait_generation_complete I i t w = (Inr ok, w')"
  by (auto simp: wait_generation_complete_def Let_def try_except_def andthen_def ret_def
      print_err_def split: prod.splits sum.splits exn.splits)

lemma wait_generation_complete_timeout:
  assumes "fst (wd_until I 60 (PresenceOfElementLocated CSS_SELECTOR (spinner_css i)) (env w))
             = Inr x"
    and "fst (wd_until I t (InvisibilityOfElementLocated CSS_SELECTOR (spinner_css i))
               (snd (snd (wd_until I 60 (PresenceOfElementLocated CSS_SELECTOR (spinner_css i)) (env w)))))
             = Inl (TimeoutException m)"
  shows "fst (wait_generation_complete I i t w) = Inr False"
  using assms
  by (auto simp: wait_generation_complete_def Let_def try_except_def andthen_def call_def ret_def
      print_err_def split: prod.splits sum.splits exn.splits)

lemma main_body_codes:
  assumes "ensure_auth I w = (Inr (), w1)"
  shows "\<exists>c. fst (main_body I a w) = Inr c \<and> c \<in> {0, 2, 3, 4}"
proof -
  obtain ok1 w2 where tp: "type_prompt I (prompt a) 20 w1 = (Inr ok1, w2)"
    using type_prompt_never_raises by blast
  obtain ok2 w3 where cc: "click_create I 20 w2 = (Inr ok2, w3)"
    using click_create_never_raises by blast
  obtain ok3 w4 where wg:
    "wait_generation_complete I 0 600 (snd (print_out ''WAITING'' w3)) = (Inr ok3, w4)"
    using wait_generation_complete_never_raises by blast
  show ?thesis
    using assms tp cc wg
    by (cases ok1; cases ok2; cases ok3)
       (simp_all add: main_body_def andthen_def ret_def print_out_def)
qed

lemma main_returns_code:
  assumes "ensure_dir I (main_session_dir a base_dir) w0 = (Inr (), w1)"
    and "create_driver I cwd (main_headless a hv) (Some (main_session_dir a base_dir)) w1 = (Inr (), w2)"
    and "ensure_auth I w2 = (Inr (), w3)"
  shows "\<exists>c. fst (main I a base_dir cwd hv w0) = Inr c \<and> c \<in> {0, 2, 3, 4}"
proof -
  obtain r w4 where body: "main_body I a w2 = (r, w4)"
    by (cases "main_body I a w2")
  with main_body_codes [OF assms(3), of a] obtain c where "r = Inr c" "c \<in> {0, 2, 3, 4}"
    by auto
  with finally_quit(1) [where m = "main_body I a" and w = w2 and I = I, OF body]
    main_launched [OF assms(1,2)] show ?thesis
    by simp
qed

text \<open>
  The polling loop, exactly: it makes \<open>k\<close> polls, each begun before the deadline; every
  poll but the last read a title without the signal; the last poll raised (and the loop
  raises the same exception), or read the signal, or ended at or after the deadline.
\<close>

lemma poll_world:
  "trace (snd (poll I w)) = trace w @ [Sleep 3000, Title]"
  "clock w + 3000 \<le> clock (snd (poll I w))"
  by (auto simp: poll_def call_def sleep_def split: prod.splits)

lemma polled_trace: "trace (polled I k w) = trace w @ concat (replicate k [Sleep 3000, Title])"
  by (induction k arbitrary: w) (simp_all add: poll_world)

lemma polled_clock: "clock w + 3000 * k \<le> clock (polled I k w)"
proof (induction k arbitrary: w)
  case 0
  show ?case by simp
next
  case (Suc k)
  from Suc [of "snd (poll I w)"] poll_world(2) [of w I] show ?case by simp
qed

lemma loop_polls:
  "\<exists>k. snd (ensure_auth_loop I d w) = polled I k w
     \<and> (\<forall>i<k. clock (polled I i w) < d)
     \<and> (\<forall>i. Suc i < k \<longrightarrow> no_signal (fst (poll I (polled I i w))))
     \<and> (case k of
          0 \<Rightarrow> d \<le> clock w \<and> fst (ensure_auth_loop I d w) = Inr ()
        | Suc j \<Rightarrow>
            (case fst (poll I (polled I j w)) of
               Inl e \<Rightarrow> fst (ensure_auth_loop I d w) = Inl e
             | Inr t \<Rightarrow> fst (ensure_auth_loop I d w) = Inr ()
                       \<and> (has_signal t \<or> d \<le> clock (polled I k w))))"
proof (induction I d w rule: ensure_auth_loop.induct)
  case (1 I d w)
  show ?case
  proof (cases "clock w < d")
    case False
    then have "ensure_auth_loop I d w = (Inr (), w)"
      by (simp add: ensure_auth_loop.simps [of I d w])
    with False show ?thesis by (intro exI [of _ 0]) simp
  next
    case True
    obtain r w' where c: "call Title (wd_title I) (snd (sleep 3000 w)) = (r, w')"
      by (cases "call Title (wd_title I) (snd (sleep 3000 w))")
    then have p: "poll I w = (r, w')" by (simp add: poll_def)
    show ?thesis
    proof (cases r)
      case (Inl e)
      with True c have "ensure_auth_loop I d w = (Inl e, w')"
        by (simp add: ensure_auth_loop.simps [of I d w])
      with True p Inl show ?thesis by (intro exI [of _ 1]) simp
    next
      case (Inr t)
      show ?thesis
      proof (cases "has_signal t")
        case found: True
        with True c Inr have "ensure_auth_loop I d w = (Inr (), w')"
          by (simp add: ensure_auth_loop.simps [of I d w] has_signal_def)
        with True p Inr found show ?thesis by (intro exI [of _ 1]) simp
      next
        case notfound: False
        then have nf: "\<not> sublist ''ChatGPT'' (case t of Some s \<Rightarrow> s | None \<Rightarrow> [])"
          by (simp add: has_signal_def)
        with True c Inr have eq: "ensure_auth_loop I d w = ensure_auth_loop I d w'"
          by (simp add: ensure_auth_loop.simps [of I d w])
        from "1.IH" [OF True c [symmetric] Inr nf] obtain k where
          k1: "snd (ensure_auth_loop I d w') = polled I k w'"
          and k2: "\<forall>i<k. clock (polled I i w') < d"
          and k3: "\<forall>i. Suc i < k \<longrightarrow> no_signal (fst (poll I (polled I i w')))"
          and k4: "(case k of
              0 \<Rightarrow> d \<le> clock w' \<and> fst (ensure_auth_loop I d w') = Inr ()
            | Suc j \<Rightarrow>
                (case fst (poll I (polled I j w')) of
                   Inl e \<Rightarrow> fst (ensure_auth_loop I d w') = Inl e
                 | Inr t \<Rightarrow> fst (ensure_auth_loop I d w') = Inr ()
                           \<and> (has_signal t \<or> d \<le> clock (polled I k w'))))"
          by blast
        have pw: "polled I (Suc i) w = polled I i w'" for i
          using p by simp
        have a: "snd (ensure_auth_loop I d w) = polled I (Suc k) w"
          using k1 eq pw by simp
        have b: "\<forall>i<Suc k. clock (polled I i w) < d"
        proof (intro allI impI)
          fix i assume "i < Suc k"
          then show "clock (polled I i w) < d"
            using True k2 pw by (cases i) auto
        qed
        have ns0: "no_signal (fst (poll I w))"
          using p Inr notfound by (simp add: no_signal_def)
        have c': "\<forall>i. Suc i < Suc k \<longrightarrow> no_signal (fst (poll I (polled I i w)))"
        proof (intro allI impI)
          fix i assume "Suc i < Suc k"
          then show "no_signal (fst (poll I (polled I i w)))"
            using ns0 k3 pw by (cases i) auto
        qed
        have d': "(case fst (poll I (polled I k w)) of
               Inl e \<Rightarrow> fst (ensure_auth_loop I d w) = Inl e
             | Inr t \<Rightarrow> fst (ensure_auth_loop I d w) = Inr ()
                       \<and> (has_signal t \<or> d \<le> clock (polled I (Suc k) w)))"
        proof (cases k)
          case 0
          with k4 eq p Inr show ?thesis by simp
        next
          case (Suc j)
          with k4 eq pw [of k] pw [of j] show ?thesis
            by (simp split: sum.splits)
        qed
        from a b c' d' show ?thesis by (intro exI [of _ "Suc k"]) simp
      qed
    qed
  qed
qed

text \<open>
  Once \<open>create_driver\<close> has returned, whatever the later steps do (return, fail or raise,
  and whether or not \<open>quit\<close> itself raises), the calls \<open>main\<close> makes after the launch end with
  \<open>Quit\<close> and contain no other \<open>Quit\<close>.
\<close>

lemma main_quits_once:
  assumes "ensure_dir I (main_session_dir a base_dir) w0 = (Inr (), w1)"
    and "create_driver I cwd (main_headless a hv) (Some (main_session_dir a base_dir)) w1 = (Inr (), w2)"
  shows "\<exists>tr. trace (snd (main I a base_dir cwd hv w0)) = trace w2 @ tr @ [Quit] \<and> Quit \<notin> set tr"
proof -
  obtain r w3 where body: "main_body I a w2 = (r, w3)"
    by (cases "main_body I a w2")
  from no_quit_main_body body obtain tr where "trace w3 = trace w2 @ tr" "Quit \<notin> set tr"
    by (rule trace_extends)
  with finally_quit(3) [where m = "main_body I a" and w = w2 and I = I, OF body]
    main_launched [OF assms] show ?thesis
    by simp
qed

lemma main_quits_once_example:
  "fst (main (fake 0 typing_and_quit_fail) args0 (Path ''/opt/app'') ''/home/u'' None (start 0)) = Inr 2 \<and>
   count_list (trace (snd (main (fake 0 typing_and_quit_fail) args0 (Path ''/opt/app'') ''/home/u''
                              None (start 0)))) Quit = 1"
proof -
  let ?I = "fake 0 typing_and_quit_fail"
  let ?sd = "main_session_dir args0 (Path ''/opt/app'')"
  let ?w1 = "snd (ensure_dir ?I ?sd (start 0))"
  let ?w2 = "snd (create_driver ?I ''/home/u'' (main_headless args0 None) (Some ?sd) ?w1)"
  have h1: "ensure_dir ?I ?sd (start 0) = (Inr (), ?w1)"
    by (simp add: prog_defs script_defs fake_defs typing_and_quit_fail_def)
  have h2: "create_driver ?I ''/home/u'' (main_headless args0 None) (Some ?sd) ?w1 = (Inr (), ?w2)"
    by (simp add: prog_defs script_defs fake_defs typing_and_quit_fail_def)
  have t2: "count_list (trace ?w2) Quit = 0"
    by (simp add: prog_defs script_defs fake_defs typing_and_quit_fail_def)
  have r: "fst (main ?I args0 (Path ''/opt/app'') ''/home/u'' None (start 0)) = Inr 2"
    by (simp add: prog_defs script_defs fake_defs typing_and_quit_fail_def)
  from main_quits_once [OF h1 h2] obtain tr where
    "trace (snd (main ?I args0 (Path ''/opt/app'') ''/home/u'' None (start 0))) = trace ?w2 @ tr @ [Quit]"
    and "Quit \<notin> set tr" by blast
  with t2 r show ?thesis by (simp add: count_list_0_iff)
qed

text \<open>
  When Chrome has started and \<open>set_script_timeout\<close> then raises, \<open>create_driver\<close> raises:
  \<open>main\<close> reports a launch failure and returns 1, and its last call is the failed
  \<open>set_script_timeout\<close>: \<open>quit\<close> is not called.
\<close>

lemma main_config_failure:
  assumes "ensure_dir I (main_session_dir a base_dir) w0 = (Inr (), w1)"
    and "wd_Chrome I (build_chrome_options (main_session_dir a base_dir) (main_headless a hv)) (env w1)
           = (Inr (), dt, s)"
    and "wd_set_script_timeout I 20 s = (Inl e, dt', s')"
  shows "fst (main I a base_dir cwd hv w0) = Inr 1"
    and "trace (snd (main I a base_dir cwd hv w0)) =
           trace w1 @ [Chrome (build_chrome_options (main_session_dir a base_dir) (main_headless a hv)),
                       SetScriptTimeout 20]"
  using assms
  by (simp_all add: main_def Let_def andthen_def try_else_def print_err_def ret_def
      create_driver_def call_def)

section \<open>The claims\<close>

text \<open>
  C1. When the profile directory is made, the browser launches, authentication returns,
  the prompt is typed, the button is clicked and the generation wait succeeds, \<open>main\<close>
  returns 0 and has appended exactly the two lines WAITING and DONE, in that order, to
  stdout.
\<close>

theorem main_success:
  assumes "ensure_dir I (main_session_dir a base_dir) w0 = (Inr (), w1)"
    and "create_driver I cwd (main_headless a hv) (Some (main_session_dir a base_dir)) w1 = (Inr (), w2)"
    and "ensure_auth I w2 = (Inr (), w3)"
    and "type_prompt I (prompt a) 20 w3 = (Inr True, w4)"
    and "click_create I 20 w4 = (Inr True, w5)"
    and "wait_generation_complete I 0 600 (snd (print_out ''WAITING'' w5)) = (Inr True, w6)"
  shows "fst (main I a base_dir cwd hv w0) = Inr 0 \<and>
         stdout (snd (main I a base_dir cwd hv w0)) = stdout w0 @ [''WAITING'', ''DONE'']"
proof -
  have body: "main_body I a w2 = (Inr 0, snd (print_out ''DONE'' w6))"
    using assms(3-6) by (simp add: main_body_def andthen_def print_out_def ret_def)
  have "stdout w5 = stdout w0"
    using launch_stdout [OF assms(1,2)] keepsD [OF keeps_stdout_ensure_auth assms(3)]
      keepsD [OF keeps_stdout_type_prompt assms(4)] keepsD [OF keeps_stdout_click_create assms(5)]
    by simp
  moreover have "stdout w6 = stdout (snd (print_out ''WAITING'' w5))"
    using keepsD [OF keeps_stdout_wait_generation_complete assms(6)] .
  ultimately have "stdout (snd (print_out ''DONE'' w6)) = stdout w0 @ [''WAITING'', ''DONE'']"
    by (simp add: print_out_def)
  with finally_quit(1,2) [where m = "main_body I a" and w = w2 and I = I, OF body]
    main_launched [OF assms(1,2)] show ?thesis
    by simp
qed

text \<open>
  The run of C1 on the fake browser where every call succeeds.
\<close>

theorem main_success_witness:
  "fst (main (fake 0 happy) args0 (Path ''/opt/app'') ''/home/u'' None (start 0)) = Inr 0 \<and>
   stdout (snd (main (fake 0 happy) args0 (Path ''/opt/app'') ''/home/u'' None (start 0)))
     = [''WAITING'', ''DONE'']"
proof -
  let ?I = "fake 0 happy"
  let ?sd = "main_session_dir args0 (Path ''/opt/app'')"
  let ?w1 = "snd (ensure_dir ?I ?sd (start 0))"
  let ?w2 = "snd (create_driver ?I ''/home/u'' (main_headless args0 None) (Some ?sd) ?w1)"
  let ?w3 = "snd (ensure_auth ?I ?w2)"
  let ?w4 = "snd (type_prompt ?I (prompt args0) 20 ?w3)"
  let ?w5 = "snd (click_create ?I 20 ?w4)"
  let ?w6 = "snd (wait_generation_complete ?I 0 600 (snd (print_out ''WAITING'' ?w5)))"
  have h1: "ensure_dir ?I ?sd (start 0) = (Inr (), ?w1)"
    by (simp add: prog_defs script_defs fake_defs happy_def)
  have h2: "create_driver ?I ''/home/u'' (main_headless args0 None) (Some ?sd) ?w1 = (Inr (), ?w2)"
    by (simp add: prog_defs script_defs fake_defs happy_def)
  have h3: "ensure_auth ?I ?w2 = (Inr (), ?w3)"
    by (simp add: prog_defs script_defs fake_defs happy_def)
  have h4: "type_prompt ?I (prompt args0) 20 ?w3 = (Inr True, ?w4)"
    by (simp add: prog_defs script_defs fake_defs happy_def)
  have h5: "click_create ?I 20 ?w4 = (Inr True, ?w5)"
    by (simp add: prog_defs script_defs fake_defs happy_def)
  have h6: "wait_generation_complete ?I 0 600 (snd (print_out ''WAITING'' ?w5)) = (Inr True, ?w6)"
    by (simp add: prog_defs script_defs fake_defs happy_def)
  from main_success [OF h1 h2 h3 h4 h5 h6] show ?thesis
    by (simp add: start_def)
qed

text \<open>
  C2. When the run reaches the generation wait and \<open>wait_generation_complete\<close> returns
  false, \<open>main\<close> returns 4, and WAITING is the one line it has written to stdout.
\<close>

theorem main_generation_timeout:
  assumes "ensure_dir I (main_session_dir a base_dir) w0 = (Inr (), w1)"
    and "create_driver I cwd (main_headless a hv) (Some (main_session_dir a base_dir)) w1 = (Inr (), w2)"
    and "ensure_auth I w2 = (Inr (), w3)"
    and "type_prompt I (prompt a) 20 w3 = (Inr True, w4)"
    and "click_create I 20 w4 = (Inr True, w5)"
    and "wait_generation_complete I 0 600 (snd (print_out ''WAITING'' w5)) = (Inr False, w6)"
  shows "fst (main I a base_dir cwd hv w0) = Inr 4 \<and>
         stdout (snd (main I a base_dir cwd hv w0)) = stdout w0 @ [''WAITING'']"
proof -
  have body: "main_body I a w2 = (Inr 4, w6)"
    using assms(3-6) by (simp add: main_body_def andthen_def print_out_def ret_def)
  have "stdout w5 = stdout w0"
    using launch_stdout [OF assms(1,2)] keepsD [OF keeps_stdout_ensure_auth assms(3)]
      keepsD [OF keeps_stdout_type_prompt assms(4)] keepsD [OF keeps_stdout_click_create assms(5)]
    by simp
  moreover have "stdout w6 = stdout (snd (print_out ''WAITING'' w5))"
    using keepsD [OF keeps_stdout_wait_generation_complete assms(6)] .
  ultimately have "stdout w6 = stdout w0 @ [''WAITING'']"
    by (simp add: print_out_def)
  with finally_quit(1,2) [where m = "main_body I a" and w = w2 and I = I, OF body]
    main_launched [OF assms(1,2)] show ?thesis
    by simp
qed

text \<open>
  The run of C2 on a fake browser whose spinner never becomes invisible.
\<close>

theorem main_generation_timeout_witness:
  "fst (main (fake 0 gen_timeout) args0 (Path ''/opt/app'') ''/home/u'' None (start 0)) = Inr 4 \<and>
   stdout (snd (main (fake 0 gen_timeout) args0 (Path ''/opt/app'') ''/home/u'' None (start 0)))
     = [''WAITING'']"
proof -
  let ?I = "fake 0 gen_timeout"
  let ?sd = "main_session_dir args0 (Path ''/opt/app'')"
  let ?w1 = "snd (ensure_dir ?I ?sd (start 0))"
  let ?w2 = "snd (create_driver ?I ''/home/u'' (main_headless args0 None) (Some ?sd) ?w1)"
  let ?w3 = "snd (ensure_auth ?I ?w2)"
  let ?w4 = "snd (type_prompt ?I (prompt args0) 20 ?w3)"
  let ?w5 = "snd (click_create ?I 20 ?w4)"
  let ?w6 = "snd (wait_generation_complete ?I 0 600 (snd (print_out ''WAITING'' ?w5)))"
  have h1: "ensure_dir ?I ?sd (start 0) = (Inr (), ?w1)"
    by (simp add: prog_defs script_defs fake_defs gen_timeout_def)
  have h2: "create_driver ?I ''/home/u'' (main_headless args0 None) (Some ?sd) ?w1 = (Inr (), ?w2)"
    by (simp add: prog_defs script_defs fake_defs gen_timeout_def)
  have h3: "ensure_auth ?I ?w2 = (Inr (), ?w3)"
    by (simp add: prog_defs script_defs fake_defs gen_timeout_def)
  have h4: "type_prompt ?I (prompt args0) 20 ?w3 = (Inr True, ?w4)"
    by (simp add: prog_defs script_defs fake_defs gen_timeout_def)
  have h5: "click_create ?I 20 ?w4 = (Inr True, ?w5)"
    by (simp add: prog_defs script_defs fake_defs gen_timeout_def)
  have h6: "wait_generation_complete ?I 0 600 (snd (print_out ''WAITING'' ?w5)) = (Inr False, ?w6)"
    by (simp add: prog_defs script_defs fake_defs gen_timeout_def)
  from main_generation_timeout [OF h1 h2 h3 h4 h5 h6] show ?thesis
    by (simp add: start_def)
qed

text \<open>
  C3. When the run reaches prompt entry and \<open>type_prompt\<close> returns false, \<open>main\<close>
  returns 2 and stdout is as it was at the start: neither WAITING nor DONE is written.
\<close>

theorem main_prompt_failure:
  assumes "ensure_dir I (main_session_dir a base_dir) w0 = (Inr (), w1)"
    and "create_driver I cwd (main_headless a hv) (Some (main_session_dir a base_dir)) w1 = (Inr (), w2)"
    and "ensure_auth I w2 = (Inr (), w3)"
    and "type_prompt I (prompt a) 20 w3 = (Inr False, w4)"
  shows "fst (main I a base_dir cwd hv w0) = Inr 2 \<and>
         stdout (snd (main I a base_dir cwd hv w0)) = stdout w0"
proof -
  have body: "main_body I a w2 = (Inr 2, w4)"
    using assms(3,4) by (simp add: main_body_def andthen_def ret_def)
  have "stdout w4 = stdout w0"
    using launch_stdout [OF assms(1,2)] keepsD [OF keeps_stdout_ensure_auth assms(3)]
      keepsD [OF keeps_stdout_type_prompt assms(4)]
    by simp
  with finally_quit(1,2) [where m = "main_body I a" and w = w2 and I = I, OF body]
    main_launched [OF assms(1,2)] show ?thesis
    by simp
qed

text \<open>
  The run of C3 on a fake browser whose textarea never becomes clickable.
\<close>

theorem main_prompt_failure_witness:
  "fst (main (fake 0 no_textarea) args0 (Path ''/opt/app'') ''/home/u'' None (start 0)) = Inr 2 \<and>
   stdout (snd (main (fake 0 no_textarea) args0 (Path ''/opt/app'') ''/home/u'' None (start 0))) = []"
proof -
  let ?I = "fake 0 no_textarea"
  let ?sd = "main_session_dir args0 (Path ''/opt/app'')"
  let ?w1 = "snd (ensure_dir ?I ?sd (start 0))"
  let ?w2 = "snd (create_driver ?I ''/home/u'' (main_headless args0 None) (Some ?sd) ?w1)"
  let ?w3 = "snd (ensure_auth ?I ?w2)"
  let ?w4 = "snd (type_prompt ?I (prompt args0) 20 ?w3)"
  have h1: "ensure_dir ?I ?sd (start 0) = (Inr (), ?w1)"
    by (simp add: prog_defs script_defs fake_defs no_textarea_def)
  have h2: "create_driver ?I ''/home/u'' (main_headless args0 None) (Some ?sd) ?w1 = (Inr (), ?w2)"
    by (simp add: prog_defs script_defs fake_defs no_textarea_def)
  have h3: "ensure_auth ?I ?w2 = (Inr (), ?w3)"
    by (simp add: prog_defs script_defs fake_defs no_textarea_def)
  have h4: "type_prompt ?I (prompt args0) 20 ?w3 = (Inr False, ?w4)"
    by (simp add: prog_defs script_defs fake_defs no_textarea_def)
  from main_prompt_failure [OF h1 h2 h3 h4] show ?thesis
    by (simp add: start_def)
qed

text \<open>
  C4. When the run reaches submission and \<open>click_create\<close> returns false, \<open>main\<close>
  returns 3.
\<close>

theorem main_submit_failure:
  assumes "ensure_dir I (main_session_dir a base_dir) w0 = (Inr (), w1)"
    and "create_driver I cwd (main_headless a hv) (Some (main_session_dir a base_dir)) w1 = (Inr (), w2)"
    and "ensure_auth I w2 = (Inr (), w3)"
    and "type_prompt I (prompt a) 20 w3 = (Inr True, w4)"
    and "click_create I 20 w4 = (Inr False, w5)"
  shows "fst (main I a base_dir cwd hv w0) = Inr 3"
proof -
  have body: "main_body I a w2 = (Inr 3, w5)"
    using assms(3-5) by (simp add: main_body_def andthen_def ret_def)
  with finally_quit(1) [where m = "main_body I a" and w = w2 and I = I, OF body]
    main_launched [OF assms(1,2)] show ?thesis
    by simp
qed

text \<open>
  The run of C4 on a fake browser whose button never becomes clickable.
\<close>

theorem main_submit_failure_witness:
  "fst (main (fake 0 no_button) args0 (Path ''/opt/app'') ''/home/u'' None (start 0)) = Inr 3"
proof -
  let ?I = "fake 0 no_button"
  let ?sd = "main_session_dir args0 (Path ''/opt/app'')"
  let ?w1 = "snd (ensure_dir ?I ?sd (start 0))"
  let ?w2 = "snd (create_driver ?I ''/home/u'' (main_headless args0 None) (Some ?sd) ?w1)"
  let ?w3 = "snd (ensure_auth ?I ?w2)"
  let ?w4 = "snd (type_prompt ?I (prompt args0) 20 ?w3)"
  let ?w5 = "snd (click_create ?I 20 ?w4)"
  have h1: "ensure_dir ?I ?sd (start 0) = (Inr (), ?w1)"
    by (simp add: prog_defs script_defs fake_defs no_button_def)
  have h2: "create_driver ?I ''/home/u'' (main_headless args0 None) (Some ?sd) ?w1 = (Inr (), ?w2)"
    by (simp add: prog_defs script_defs fake_defs no_button_def)
  have h3: "ensure_auth ?I ?w2 = (Inr (), ?w3)"
    by (simp add: prog_defs script_defs fake_defs no_button_def)
  have h4: "type_prompt ?I (prompt args0) 20 ?w3 = (Inr True, ?w4)"
    by (simp add: prog_defs script_defs fake_defs no_button_def)
  have h5: "click_create ?I 20 ?w4 = (Inr False, ?w5)"
    by (simp add: prog_defs script_defs fake_defs no_button_def)
  from main_submit_failure [OF h1 h2 h3 h4 h5] show ?thesis .
qed

text \<open>
  C5 fails on the code. On a fake browser where Chrome starts (the session exists) and
  \<open>set_script_timeout(20)\<close> then raises, \<open>main\<close> prints the launch failure to stderr,
  returns 1 and has made three calls, none of them \<open>quit\<close>: the session that was created is
  never quit. (After \<open>create_driver\<close> has returned, \<open>quit\<close> is called exactly once:
  \<open>main_quits_once\<close>.)
\<close>

theorem main_config_failure_leaves_session:
  "fst (wd_Chrome (fake 0 config_fails)
          (build_chrome_options (Div (Path ''/opt/app'') ''.chrome-session'') False) 1) = Inr () \<and>
   main (fake 0 config_fails) args0 (Path ''/opt/app'') ''/home/u'' None (start 0) =
     (Inr 1,
      \<lparr>env = 3, clock = 0,
       trace = [Mkdir (Div (Path ''/opt/app'') ''.chrome-session''),
                Chrome (build_chrome_options (Div (Path ''/opt/app'') ''.chrome-session'') False),
                SetScriptTimeout 20],
       stdout = [],
       stderr = [''Failed to start Chrome: chrome not reachable'']\<rparr>)"
  by (simp add: prog_defs script_defs fake_defs config_fails_def)

text \<open>
  C6, as amended. If the scroll-into-view script raises, \<open>click_button_robustly\<close> returns
  false and has made that one call: no click is attempted. If the scroll script returns
  normally, the native click of the element raises (in the state where it is tried) and the
  scripted click succeeds (in the state after the move-then-click), it returns true, and its
  calls are exactly: the scroll script, the settle delay, the pointer move, its delay when
  and only when the move returned, the native click, the move-then-click, and the scripted
  click when and only when the move-then-click raised. The synthetic event is not
  dispatched.
\<close>

theorem click_button_robustly_fallback:
  "(wd_execute_script I scroll_js [b] (env w) = (Inl e, dt, s) \<longrightarrow>
      click_button_robustly I b w =
        (Inr False,
         w\<lparr>env := s, clock := clock w + dt, trace := trace w @ [ExecuteScript scroll_js [b]]\<rparr>)) \<and>
   (wd_execute_script I scroll_js [b] (env w) = (Inr (), dt1, s1) \<and>
    wd_perform I [MoveToElement b] s1 = (r2, dt2, s2) \<and>
    wd_click I b s2 = (Inl e3, dt3, s3) \<and>
    wd_perform I [MoveToElement b, Click] s3 = (r4, dt4, s4) \<and>
    wd_execute_script I click_js [b] s4 = (Inr (), dt5, s5) \<longrightarrow>
      click_button_robustly I b w =
        (Inr True,
         w\<lparr>env := (case r4 of Inl x \<Rightarrow> s5 | Inr u \<Rightarrow> s4),
           clock := clock w + dt1 + 300 + dt2 + (case r2 of Inl x \<Rightarrow> 0 | Inr u \<Rightarrow> 200)
                    + dt3 + dt4 + (case r4 of Inl x \<Rightarrow> dt5 | Inr u \<Rightarrow> 0),
           trace := trace w
             @ [ExecuteScript scroll_js [b], Sleep 300, Perform [MoveToElement b]]
             @ (case r2 of Inl x \<Rightarrow> [] | Inr u \<Rightarrow> [Sleep 200])
             @ [ElemClick b, Perform [MoveToElement b, Click]]
             @ (case r4 of Inl x \<Rightarrow> [ExecuteScript click_js [b]] | Inr u \<Rightarrow> [])\<rparr>))"
proof (intro conjI impI)
  assume "wd_execute_script I scroll_js [b] (env w) = (Inl e, dt, s)"
  then show "click_button_robustly I b w =
        (Inr False,
         w\<lparr>env := s, clock := clock w + dt, trace := trace w @ [ExecuteScript scroll_js [b]]\<rparr>)"
    by (simp add: click_button_robustly_def try_except_def andthen_def call_def ret_def)
next
  assume a: "wd_execute_script I scroll_js [b] (env w) = (Inr (), dt1, s1) \<and>
    wd_perform I [MoveToElement b] s1 = (r2, dt2, s2) \<and>
    wd_click I b s2 = (Inl e3, dt3, s3) \<and>
    wd_perform I [MoveToElement b, Click] s3 = (r4, dt4, s4) \<and>
    wd_execute_script I click_js [b] s4 = (Inr (), dt5, s5)"
  then show "click_button_robustly I b w =
        (Inr True,
         w\<lparr>env := (case r4 of Inl x \<Rightarrow> s5 | Inr u \<Rightarrow> s4),
           clock := clock w + dt1 + 300 + dt2 + (case r2 of Inl x \<Rightarrow> 0 | Inr u \<Rightarrow> 200)
                    + dt3 + dt4 + (case r4 of Inl x \<Rightarrow> dt5 | Inr u \<Rightarrow> 0),
           trace := trace w
             @ [ExecuteScript scroll_js [b], Sleep 300, Perform [MoveToElement b]]
             @ (case r2 of Inl x \<Rightarrow> [] | Inr u \<Rightarrow> [Sleep 200])
             @ [ElemClick b, Perform [MoveToElement b, Click]]
             @ (case r4 of Inl x \<Rightarrow> [ExecuteScript click_js [b]] | Inr u \<Rightarrow> [])\<rparr>)"
    by (cases r2; cases r4)
       (simp_all add: click_button_robustly_def try_except_def andthen_def call_def sleep_def
          ret_def add.assoc)
qed

text \<open>
  The amended C6 on a fake browser whose script engine always raises, and on one whose
  native click and move-then-click raise.
\<close>

theorem click_button_robustly_fallback_witness:
  "click_button_robustly (fake 0 script_engine_down) 7 (start 0) =
     (Inr False, \<lparr>env = 1, clock = 0, trace = [ExecuteScript scroll_js [7]],
                  stdout = [], stderr = []\<rparr>) \<and>
   click_button_robustly (fake 0 native_blocked) 7 (start 0) =
     (Inr True, \<lparr>env = 5, clock = 500,
        trace = [ExecuteScript scroll_js [7], Sleep 300, Perform [MoveToElement 7], Sleep 200,
                 ElemClick 7, Perform [MoveToElement 7, Click], ExecuteScript click_js [7]],
        stdout = [], stderr = []\<rparr>)"
proof -
  let ?D = "fake 0 script_engine_down" and ?N = "fake 0 native_blocked"
  have d: "wd_execute_script ?D scroll_js [7] (env (start 0))
             = (Inl (WebDriverException ''javascript error''), 0, 1)"
    by (simp add: fake_defs script_engine_down_def)
  have n: "wd_execute_script ?N scroll_js [7] (env (start 0)) = (Inr (), 0, 1) \<and>
    wd_perform ?N [MoveToElement 7] 1 = (Inr (), 0, 2) \<and>
    wd_click ?N 7 2 = (Inl (ElementClickInterceptedException ''intercepted''), 0, 3) \<and>
    wd_perform ?N [MoveToElement 7, Click] 3
      = (Inl (WebDriverException ''move target out of bounds''), 0, 4) \<and>
    wd_execute_script ?N click_js [7] 4 = (Inr (), 0, 5)"
    by (simp add: fake_defs native_blocked_def)
  from click_button_robustly_fallback [of ?D 7 "start 0" _ 0 1 0 1 "Inr ()" 0 2 _ 0 3 "Inr ()" 0 4 0 5,
      THEN conjunct1, rule_format, OF d]
    click_button_robustly_fallback [of ?N 7 "start 0" _ 0 1 0 1 "Inr ()" 0 2
        "ElementClickInterceptedException ''intercepted''" 0 3
        "Inl (WebDriverException ''move target out of bounds'')" 0 4 0 5,
      THEN conjunct2, rule_format, OF n]
  show ?thesis by (simp add: start_def)
qed

text \<open>
  C6 as stated fails: on a fake browser where the native click raises, the scripted click
  succeeds and the scroll-into-view script raises, the outer \<open>except\<close> returns false after
  the scroll script alone; no click is attempted.
\<close>

theorem click_button_robustly_scroll_counterexample:
  "fst (wd_click (fake 0 scroll_fails) 7 1) = Inl (ElementClickInterceptedException ''intercepted'') \<and>
   fst (wd_execute_script (fake 0 scroll_fails) click_js [7] 1) = Inr () \<and>
   click_button_robustly (fake 0 scroll_fails) 7 (start 0) =
     (Inr False, \<lparr>env = 1, clock = 0, trace = [ExecuteScript scroll_js [7]], stdout = [], stderr = []\<rparr>)"
  by (simp add: click_button_robustly_def prog_defs fake_def scroll_fails_def start_def
      scroll_js_def click_js_def)

text \<open>
  C7. \<open>safe_get\<close> never raises: for every URL, world and browser it returns a boolean.
  It calls \<open>get\<close> first; when \<open>get\<close> returned it waits for the ready state with timeout 10;
  it returns true exactly when both calls returned normally, and false when either raised.
\<close>

theorem safe_get_never_raises:
  "\<exists>ok w'. safe_get I url w = (Inr ok, w') \<and>
     (ok = (fst (wd_get I url (env w)) = Inr () \<and>
            (\<exists>x. fst (wd_until I 10 ReadyStateComplete (snd (snd (wd_get I url (env w))))) = Inr x))) \<and>
     trace w' = trace w @ Get url #
       (if fst (wd_get I url (env w)) = Inr () then [Until 10 ReadyStateComplete] else [])"
proof -
  obtain r1 dt1 b1 where g: "wd_get I url (env w) = (r1, dt1, b1)"
    by (cases "wd_get I url (env w)")
  obtain r2 dt2 b2 where u: "wd_until I 10 ReadyStateComplete b1 = (r2, dt2, b2)"
    by (cases "wd_until I 10 ReadyStateComplete b1")
  show ?thesis
  proof (cases r1)
    case (Inl e)
    with g show ?thesis
      by (auto simp: safe_get_def try_except_def andthen_def call_def ret_def)
  next
    case r1: (Inr x)
    show ?thesis
    proof (cases r2)
      case (Inl e)
      with r1 g u show ?thesis
        by (auto simp: safe_get_def try_except_def andthen_def call_def ret_def)
    next
      case (Inr y)
      with r1 g u show ?thesis
        by (auto simp: safe_get_def try_except_def andthen_def call_def ret_def)
    qed
  qed
qed

text \<open>
  C7 on a fake browser where navigation succeeds and on one where \<open>get\<close> raises.
\<close>

theorem safe_get_never_raises_witness:
  "(\<exists>w'. safe_get (fake 0 happy) base (start 0) = (Inr True, w') \<and>
          trace w' = [Get base, Until 10 ReadyStateComplete]) \<and>
   (\<exists>w'. safe_get (fake 0 nav_down) base (start 0) = (Inr False, w') \<and> trace w' = [Get base])"
proof -
  have a: "\<exists>w'. safe_get (fake 0 happy) base (start 0) = (Inr True, w') \<and>
          trace w' = [Get base, Until 10 ReadyStateComplete]"
    using safe_get_never_raises [of "fake 0 happy" base "start 0"]
    by (auto simp: fake_def happy_def start_def)
  have b: "\<exists>w'. safe_get (fake 0 nav_down) base (start 0) = (Inr False, w') \<and> trace w' = [Get base]"
    using safe_get_never_raises [of "fake 0 nav_down" base "start 0"]
    by (auto simp: fake_def nav_down_def start_def)
  from a b show ?thesis by blast
qed

text \<open>
  C8, as amended. Let the image query after the first visit return normally, and let
  \<open>wc\<close> be the world after navigating from there to the identity provider. If the query
  returned at least one element, \<open>ensure_auth\<close> returns at once: the world is the one the
  query left. If it returned none, \<open>ensure_auth\<close> navigates to the identity provider and
  makes \<open>k\<close> polls, at least 1 and at most 40, each a sleep of 3 seconds and then a read of
  the title, each begun less than 120 seconds after \<open>wc\<close>. Every poll but the last read a
  title without the signal. If the last read raised, that exception leaves \<open>ensure_auth\<close>
  in the world right after the read, with no further navigation. If it returned, it read
  the signal or 120 seconds have passed, and \<open>ensure_auth\<close> then navigates to the target
  application again, sleeps 2 seconds and returns.
\<close>

theorem ensure_auth_flow:
  assumes imgs: "call (FindElements TAG_NAME ''img'') (wd_find_elements I TAG_NAME ''img'')
             (snd (sleep 2000 (snd (safe_get I base w)))) = (Inr imgs, w1)"
    and idp: "safe_get I ''https://chat.openai.com/'' w1 = (ok, wc)"
  shows "(imgs \<noteq> [] \<longrightarrow> ensure_auth I w = (Inr (), w1)) \<and>
         (imgs = [] \<longrightarrow>
            (\<exists>k. 0 < k \<and> k \<le> 40 \<and>
               (\<forall>i<k. clock (polled I i wc) < clock wc + 120000) \<and>
               (\<forall>i. Suc i < k \<longrightarrow> no_signal (fst (poll I (polled I i wc)))) \<and>
               trace (polled I k wc) = trace wc @ concat (replicate k [Sleep 3000, Title]) \<and>
               (case fst (poll I (polled I (k - 1) wc)) of
                  Inl e \<Rightarrow> ensure_auth I w = (Inl e, polled I k wc)
                | Inr t \<Rightarrow>
                    (has_signal t \<or> clock wc + 120000 \<le> clock (polled I k wc)) \<and>
                    ensure_auth I w = sleep 2000 (snd (safe_get I base (polled I k wc))))))"
proof (intro conjI impI)
  assume "imgs \<noteq> []"
  with imgs show "ensure_auth I w = (Inr (), w1)"
    by (simp add: ensure_auth_def andthen_safe_get andthen_sleep)
       (simp add: andthen_def ret_def)
next
  assume empty: "imgs = []"
  let ?d = "clock wc + 120000"
  have ea: "ensure_auth I w =
      andthen (ensure_auth_loop I ?d) (\<lambda>_. andthen (safe_get I base) (\<lambda>_. sleep 2000)) wc"
    using imgs empty idp
    by (simp add: ensure_auth_def andthen_safe_get andthen_sleep)
       (simp add: andthen_def [of "call _ _"] andthen_safe_get andthen_def [of time_time] time_time_def)
  obtain r wd where lp: "ensure_auth_loop I ?d wc = (r, wd)"
    by (cases "ensure_auth_loop I ?d wc")
  from lp have f: "fst (ensure_auth_loop I ?d wc) = r" "snd (ensure_auth_loop I ?d wc) = wd"
    by simp_all
  from loop_polls [of I ?d wc, unfolded f] obtain k where
    k1: "wd = polled I k wc"
    and k2: "\<forall>i<k. clock (polled I i wc) < ?d"
    and k3: "\<forall>i. Suc i < k \<longrightarrow> no_signal (fst (poll I (polled I i wc)))"
    and k4: "(case k of
          0 \<Rightarrow> ?d \<le> clock wc \<and> r = Inr ()
        | Suc j \<Rightarrow>
            (case fst (poll I (polled I j wc)) of
               Inl e \<Rightarrow> r = Inl e
             | Inr t \<Rightarrow> r = Inr () \<and> (has_signal t \<or> ?d \<le> clock (polled I k wc))))"
    by blast
  from k4 obtain j where kj: "k = Suc j" by (cases k) auto
  from k2 kj have "clock (polled I j wc) < ?d" by simp
  with polled_clock [of wc j I] have "j < 40" by simp
  with kj have k40: "k \<le> 40" by simp
  have last: "(case fst (poll I (polled I (k - 1) wc)) of
                  Inl e \<Rightarrow> ensure_auth I w = (Inl e, polled I k wc)
                | Inr t \<Rightarrow>
                    (has_signal t \<or> ?d \<le> clock (polled I k wc)) \<and>
                    ensure_auth I w = sleep 2000 (snd (safe_get I base (polled I k wc))))"
  proof (cases "fst (poll I (polled I j wc))")
    case (Inl e)
    with k4 kj have "r = Inl e" by simp
    with ea lp k1 have "ensure_auth I w = (Inl e, polled I k wc)" by (simp add: andthen_def)
    with Inl kj show ?thesis by simp
  next
    case (Inr t)
    with k4 kj have r: "r = Inr ()" and st: "has_signal t \<or> ?d \<le> clock (polled I k wc)"
      by simp_all
    from ea lp r k1 have "ensure_auth I w = sleep 2000 (snd (safe_get I base (polled I k wc)))"
      by (simp add: andthen_def [of "ensure_auth_loop _ _"] andthen_safe_get)
    with Inr st kj show ?thesis by simp
  qed
  from kj k40 k2 k3 last polled_trace [of I k wc]
  show "\<exists>k. 0 < k \<and> k \<le> 40 \<and>
               (\<forall>i<k. clock (polled I i wc) < clock wc + 120000) \<and>
               (\<forall>i. Suc i < k \<longrightarrow> no_signal (fst (poll I (polled I i wc)))) \<and>
               trace (polled I k wc) = trace wc @ concat (replicate k [Sleep 3000, Title]) \<and>
               (case fst (poll I (polled I (k - 1) wc)) of
                  Inl e \<Rightarrow> ensure_auth I w = (Inl e, polled I k wc)
                | Inr t \<Rightarrow>
                    (has_signal t \<or> clock wc + 120000 \<le> clock (polled I k wc)) \<and>
                    ensure_auth I w = sleep 2000 (snd (safe_get I base (polled I k wc))))"
    by (intro exI [of _ k]) simp
qed

text \<open>
  The amended C8 on the fake browser with an image on the page, and on one with no image
  whose title turns to ChatGPT later.
\<close>

theorem ensure_auth_flow_witness:
  "(\<exists>w1. ensure_auth (fake 0 happy) (start 0) = (Inr (), w1) \<and>
      trace w1 = [Get base, Until 10 ReadyStateComplete, Sleep 2000, FindElements TAG_NAME ''img'']) \<and>
   (\<exists>k. 0 < k \<and> k \<le> 40 \<and>
      fst (ensure_auth (fake 0 login_needed) (start 0)) = Inr () \<and>
      trace (snd (ensure_auth (fake 0 login_needed) (start 0))) =
        [Get base, Until 10 ReadyStateComplete, Sleep 2000, FindElements TAG_NAME ''img'',
         Get ''https://chat.openai.com/'', Until 10 ReadyStateComplete]
        @ concat (replicate k [Sleep 3000, Title])
        @ [Get base, Until 10 ReadyStateComplete, Sleep 2000])"
proof -
  let ?H = "fake 0 happy" and ?L = "fake 0 login_needed"
  let ?idp = "''https://chat.openai.com/''"
  let ?f = "\<lambda>I. call (FindElements TAG_NAME ''img'') (wd_find_elements I TAG_NAME ''img'')
             (snd (sleep 2000 (snd (safe_get I base (start 0)))))"
  let ?c = "\<lambda>I. safe_get I ?idp (snd (?f I))"
  have h: "?f ?H = (Inr [1], snd (?f ?H))"
    by (simp add: prog_defs safe_get_def fake_defs happy_def)
  have l: "?f ?L = (Inr [], snd (?f ?L))"
    by (simp add: prog_defs safe_get_def fake_defs login_needed_def)
  have hc: "?c ?H = (fst (?c ?H), snd (?c ?H))" and lc: "?c ?L = (fst (?c ?L), snd (?c ?L))"
    by simp_all
  have th: "trace (snd (?f ?H)) =
      [Get base, Until 10 ReadyStateComplete, Sleep 2000, FindElements TAG_NAME ''img'']"
    by (simp add: prog_defs safe_get_def fake_defs happy_def)
  have tc: "trace (snd (?c ?L)) =
      [Get base, Until 10 ReadyStateComplete, Sleep 2000, FindElements TAG_NAME ''img'',
       Get ?idp, Until 10 ReadyStateComplete]"
    by (simp add: prog_defs safe_get_def fake_defs login_needed_def)
  have reads: "\<exists>t. fst (poll ?L x) = Inr t" for x
    by (simp add: poll_def prog_defs fake_defs login_needed_def)
  have revisit: "trace (snd (sleep 2000 (snd (safe_get ?L base x)))) =
      trace x @ [Get base, Until 10 ReadyStateComplete, Sleep 2000]"
    and revisit_ok: "fst (sleep 2000 (snd (safe_get ?L base x))) = Inr ()" for x
    by (simp_all add: prog_defs safe_get_def fake_defs login_needed_def)
  from ensure_auth_flow [OF h hc] th
  have a: "\<exists>w1. ensure_auth ?H (start 0) = (Inr (), w1) \<and>
      trace w1 = [Get base, Until 10 ReadyStateComplete, Sleep 2000, FindElements TAG_NAME ''img'']"
    by simp
  from ensure_auth_flow [OF l lc] obtain k where
    k: "0 < k" "k \<le> 40"
    and tr: "trace (polled ?L k (snd (?c ?L))) =
               trace (snd (?c ?L)) @ concat (replicate k [Sleep 3000, Title])"
    and last: "(case fst (poll ?L (polled ?L (k - 1) (snd (?c ?L)))) of
                  Inl e \<Rightarrow> ensure_auth ?L (start 0) = (Inl e, polled ?L k (snd (?c ?L)))
                | Inr t \<Rightarrow>
                    (has_signal t \<or> clock (snd (?c ?L)) + 120000 \<le> clock (polled ?L k (snd (?c ?L)))) \<and>
                    ensure_auth ?L (start 0) =
                      sleep 2000 (snd (safe_get ?L base (polled ?L k (snd (?c ?L))))))"
    by auto
  from reads [of "polled ?L (k - 1) (snd (?c ?L))"] last
  have "ensure_auth ?L (start 0) = sleep 2000 (snd (safe_get ?L base (polled ?L k (snd (?c ?L)))))"
    by auto
  with revisit revisit_ok tr tc k
  have b: "\<exists>k. 0 < k \<and> k \<le> 40 \<and>
      fst (ensure_auth ?L (start 0)) = Inr () \<and>
      trace (snd (ensure_auth ?L (start 0))) =
        [Get base, Until 10 ReadyStateComplete, Sleep 2000, FindElements TAG_NAME ''img'',
         Get ?idp, Until 10 ReadyStateComplete]
        @ concat (replicate k [Sleep 3000, Title])
        @ [Get base, Until 10 ReadyStateComplete, Sleep 2000]"
    by (intro exI [of _ k]) simp
  from a b show ?thesis by blast
qed

text \<open>
  C8 as stated fails: on a fake browser with no image whose title read raises (the window
  was closed), \<open>ensure_auth\<close> raises after the first poll and never navigates back to the
  target application.
\<close>

theorem ensure_auth_title_counterexample:
  "ensure_auth (fake 0 window_closed) (start 0) =
     (Inl (WebDriverException ''no such window''),
      \<lparr>env = 6, clock = 5000,
       trace = [Get base, Until 10 ReadyStateComplete, Sleep 2000, FindElements TAG_NAME ''img'',
                Get ''https://chat.openai.com/'', Until 10 ReadyStateComplete, Sleep 3000, Title],
       stdout = [], stderr = []\<rparr>)"
  by (simp add: ensure_auth_def safe_get_def prog_defs fake_defs window_closed_def
      ensure_auth_loop.simps)

text \<open>
  C9. When \<open>--session-dir\<close> is not supplied and the directory can be made, the first two
  calls of \<open>main\<close> make the directory \<open>.chrome-session\<close> under the directory of the program
  file and launch Chrome with \<open>--user-data-dir\<close> built from that same path; the parent of
  the path is the directory of the program file and its name is \<open>.chrome-session\<close>.
\<close>

theorem default_session_dir:
  assumes "session_dir a = None"
    and "ensure_dir I (Div base_dir ''.chrome-session'') w0 = (Inr (), w1)"
  shows "\<exists>tr.
           trace (snd (main I a base_dir cwd hv w0)) =
             trace w0 @ [Mkdir (Div base_dir ''.chrome-session''),
                         Chrome ([UserDataDir (Div base_dir ''.chrome-session''),
                                  Argument ''--profile-directory=Default'',
                                  Argument ''--no-sandbox'',
                                  Argument ''--disable-dev-shm-usage'',
                                  Argument ''--disable-features=VizDisplayCompositor'',
                                  Argument ''--disable-web-security'']
                                 @ (if main_headless a hv then [Argument ''--headless=new''] else []))]
               @ tr
           \<and> parent (main_session_dir a base_dir) = Some base_dir
           \<and> name_of (main_session_dir a base_dir) = Some ''.chrome-session''"
proof -
  let ?D = "Div base_dir ''.chrome-session''"
  let ?h = "main_headless a hv"
  have sd: "main_session_dir a base_dir = ?D"
    using assms(1) by (simp add: main_session_dir_def)
  have t1: "trace w1 = trace w0 @ [Mkdir ?D]"
    using assms(2) by (auto simp: ensure_dir_def call_def split: prod.splits)
  obtain r w2 where cd: "create_driver I cwd ?h (Some ?D) w1 = (r, w2)"
    by (cases "create_driver I cwd ?h (Some ?D) w1")
  from create_driver_trace [of I cwd ?h ?D w1] cd obtain tr2 where
    t2: "trace w2 = trace w1 @ Chrome (build_chrome_options ?D ?h) # tr2" by auto
  have "\<exists>tr3. trace (snd (main I a base_dir cwd hv w0)) = trace w2 @ tr3"
  proof (cases r)
    case (Inl e)
    with assms(2) cd sd show ?thesis
      by (simp add: main_def Let_def andthen_def try_else_def print_err_def ret_def)
  next
    case (Inr u)
    with cd have cd': "create_driver I cwd ?h (Some (main_session_dir a base_dir)) w1 = (Inr (), w2)"
      by (simp add: sd)
    obtain rb w3 where body: "main_body I a w2 = (rb, w3)"
      by (cases "main_body I a w2")
    from no_quit_main_body body obtain tr where "trace w3 = trace w2 @ tr" "Quit \<notin> set tr"
      by (rule trace_extends)
    with finally_quit(3) [where m = "main_body I a" and w = w2 and I = I, OF body]
      main_launched [OF _ cd', of w0] assms(2) sd show ?thesis
      by simp
  qed
  with t1 t2 sd show ?thesis by (auto simp: build_chrome_options_def)
qed

text \<open>
  C9 on the fake browser, with the program in \<open>/opt/app\<close>.
\<close>

theorem default_session_dir_witness:
  "session_dir args0 = None \<and>
   (\<exists>tr. trace (snd (main (fake 0 happy) args0 (Path ''/opt/app'') ''/home/u'' None (start 0))) =
      [Mkdir (Div (Path ''/opt/app'') ''.chrome-session''),
       Chrome [UserDataDir (Div (Path ''/opt/app'') ''.chrome-session''),
               Argument ''--profile-directory=Default'',
               Argument ''--no-sandbox'',
               Argument ''--disable-dev-shm-usage'',
               Argument ''--disable-features=VizDisplayCompositor'',
               Argument ''--disable-web-security'']] @ tr)"
proof -
  let ?I = "fake 0 happy"
  let ?w1 = "snd (ensure_dir ?I (Div (Path ''/opt/app'') ''.chrome-session'') (start 0))"
  have h0: "session_dir args0 = None"
    by (simp add: args0_def)
  have h1: "ensure_dir ?I (Div (Path ''/opt/app'') ''.chrome-session'') (start 0) = (Inr (), ?w1)"
    by (simp add: prog_defs script_defs fake_defs happy_def)
  have hl: "\<not> main_headless args0 None"
    by (simp add: main_headless_def args0_def lower_def lower_char_def)
  from default_session_dir [OF h0 h1, of "''/home/u''" None] h0 hl show ?thesis
    by (simp add: start_def)
qed

text \<open>
  C10. When \<open>ensure_auth\<close> raises, \<open>main\<close> does not return an exit code: the same
  exception leaves \<open>main\<close>. The cleanup has still called \<open>quit\<close>, as the last call, and
  nothing was written to stdout.
\<close>

theorem main_auth_exception:
  assumes "ensure_dir I (main_session_dir a base_dir) w0 = (Inr (), w1)"
    and "create_driver I cwd (main_headless a hv) (Some (main_session_dir a base_dir)) w1 = (Inr (), w2)"
    and "ensure_auth I w2 = (Inl e, w3)"
  shows "fst (main I a base_dir cwd hv w0) = Inl e \<and>
         trace (snd (main I a base_dir cwd hv w0)) = trace w3 @ [Quit] \<and>
         stdout (snd (main I a base_dir cwd hv w0)) = stdout w0"
proof -
  have body: "main_body I a w2 = (Inl e, w3)"
    using assms(3) by (simp add: main_body_def andthen_def)
  have "stdout w3 = stdout w0"
    using launch_stdout [OF assms(1,2)] keepsD [OF keeps_stdout_ensure_auth assms(3)]
    by simp
  with finally_quit [where m = "main_body I a" and w = w2 and I = I, OF body]
    main_launched [OF assms(1,2)] show ?thesis
    by simp
qed

text \<open>
  The run of C10 on a fake browser whose image query raises.
\<close>

theorem main_auth_exception_witness:
  "fst (main (fake 0 auth_crash) args0 (Path ''/opt/app'') ''/home/u'' None (start 0))
     = Inl (WebDriverException ''disconnected'') \<and>
   last (trace (snd (main (fake 0 auth_crash) args0 (Path ''/opt/app'') ''/home/u'' None (start 0))))
     = Quit \<and>
   stdout (snd (main (fake 0 auth_crash) args0 (Path ''/opt/app'') ''/home/u'' None (start 0))) = []"
proof -
  let ?I = "fake 0 auth_crash"
  let ?sd = "main_session_dir args0 (Path ''/opt/app'')"
  let ?w1 = "snd (ensure_dir ?I ?sd (start 0))"
  let ?w2 = "snd (create_driver ?I ''/home/u'' (main_headless args0 None) (Some ?sd) ?w1)"
  let ?w3 = "snd (ensure_auth ?I ?w2)"
  have h1: "ensure_dir ?I ?sd (start 0) = (Inr (), ?w1)"
    by (simp add: prog_defs script_defs fake_defs auth_crash_def)
  have h2: "create_driver ?I ''/home/u'' (main_headless args0 None) (Some ?sd) ?w1 = (Inr (), ?w2)"
    by (simp add: prog_defs script_defs fake_defs auth_crash_def)
  have h3: "ensure_auth ?I ?w2 = (Inl (WebDriverException ''disconnected''), ?w3)"
    by (simp add: prog_defs script_defs fake_defs auth_crash_def)
  from main_auth_exception [OF h1 h2 h3] show ?thesis
    by (simp add: start_def)
qed

end
